theory Spec2Isabelle
  imports Main "HOL-Library.Word"
begin

unbundle bit_operations_syntax

section \<open>GigE Vision device control core (arvgvdevice.c)\<close>

text \<open>
  A shallow embedding of the control channel, block I/O, heartbeat, schema bootstrap and
  packet size probe of \<^verbatim>\<open>arvgvdevice.c\<close>. Everything the C code obtains from the
  outside (the socket, the clock, the device features, the file system) is an explicit
  input of the model, so that every theorem is quantified over all behaviours of the
  network and of the device.
\<close>

subsection \<open>Outcomes\<close>

text \<open>
  A function either returns, or aborts the process (\<^verbatim>\<open>g_assert_not_reached\<close>, and
  the undefined behaviour of C arithmetic), or asks the environment for an event that the
  finite script of the environment does not contain (\<open>Starved\<close>): the loops of the
  source that wait for the network need not terminate, and a script that has run out
  stands for a run that has not returned yet.
\<close>

datatype 'a outcome = Returned 'a | Aborted | Starved

subsection \<open>Protocol constants and packet accessors (arvgvcpprivate.h, not in the sources)\<close>

text \<open>
  The numeric constants and the size helpers of the packet codec are declared in headers
  that are not part of the sources at hand; they are parameters of the model.
\<close>

record gvcp_params =
  sizeof_ArvGvcpHeader :: nat
  get_pending_ack_size :: nat
  get_read_memory_ack_size :: "nat \<Rightarrow> nat"
  get_write_memory_ack_size :: nat
  get_read_register_ack_size :: nat
  get_write_register_ack_size :: nat
  ARV_GV_DEVICE_BUFFER_SIZE :: nat
  ARV_GVCP_DATA_SIZE_MAX :: nat
  ARV_GVCP_ERROR_NONE :: nat

datatype ArvGvcpPacketType =
  ARV_GVCP_PACKET_TYPE_ACK
| ARV_GVCP_PACKET_TYPE_ERROR
| ARV_GVCP_PACKET_TYPE_UNKNOWN_ERROR
| ARV_GVCP_PACKET_TYPE_OTHER

datatype ArvGvcpCommand =
  ARV_GVCP_COMMAND_READ_MEMORY_CMD
| ARV_GVCP_COMMAND_READ_MEMORY_ACK
| ARV_GVCP_COMMAND_WRITE_MEMORY_CMD
| ARV_GVCP_COMMAND_WRITE_MEMORY_ACK
| ARV_GVCP_COMMAND_READ_REGISTER_CMD
| ARV_GVCP_COMMAND_READ_REGISTER_ACK
| ARV_GVCP_COMMAND_WRITE_REGISTER_CMD
| ARV_GVCP_COMMAND_WRITE_REGISTER_ACK
| ARV_GVCP_COMMAND_PENDING_ACK
| ARV_GVCP_COMMAND_OTHER

text \<open>
  The scratch receive buffer \<^verbatim>\<open>io_data->buffer\<close> is read only through the accessors of
  the codec; the model keeps what each accessor returns on it.
\<close>

record ArvGvcpPacket =
  get_packet_type :: ArvGvcpPacketType
  get_packet_flags :: nat
  get_command :: ArvGvcpCommand
  get_packet_id :: "16 word"
  get_pending_ack_timeout :: int
  get_read_memory_ack_data :: "nat \<Rightarrow> 8 word"
  get_read_register_ack_value :: "32 word"

text \<open>
  Modelled from the spec: \<^verbatim>\<open>arv_gvcp_next_packet_id\<close> is not in the sources; the
  identifier generator "takes the previous value and returns (previous+1) with 0 excluded
  (skip to 1 on wraparound)".
\<close>

definition arv_gvcp_next_packet_id :: "16 word \<Rightarrow> 16 word" where
  "arv_gvcp_next_packet_id p = (if p + 1 = 0 then 1 else p + 1)"

subsection \<open>Session state, caller buffers, errors\<close>

record ArvGvDeviceIOData =
  packet_id :: "16 word"
  buffer :: ArvGvcpPacket
  gvcp_n_retries :: nat
  gvcp_timeout_ms :: nat
  is_controller :: bool

text \<open>
  The \<^verbatim>\<open>void *buffer\<close> of an exchange points to bytes for the memory commands and to a
  \<^verbatim>\<open>guint32\<close> for the register commands.
\<close>

datatype caller_buffer = Bytes "8 word list" | Word32 "32 word"

datatype ArvDeviceError =
  ARV_DEVICE_ERROR_PROTOCOL_ERROR nat
| ARV_DEVICE_ERROR_TIMEOUT
| ARV_DEVICE_ERROR_OTHER

text \<open>
  A \<^verbatim>\<open>GError **\<close>: \<open>None\<close> is the null pointer, \<open>Some None\<close> an empty placeholder,
  \<open>Some (Some e)\<close> a placeholder that holds an error.
\<close>

type_synonym gerror_ptr = "ArvDeviceError option option"

subsection \<open>The environment of an exchange\<close>

text \<open>
  One iteration of the receive loop reads the clock, polls the socket and, when the socket
  is ready, receives one datagram; when the frame is a pending ack the clock is read again.
  \<open>Datagram n v\<close> is a call of \<^verbatim>\<open>g_socket_receive\<close> that returns \<open>n\<close> and leaves the
  scratch buffer as \<open>v\<close>; \<open>RecvError\<close> is a call that returns -1 and leaves the buffer as
  it was.
\<close>

datatype socket_receive = RecvError | Datagram nat ArvGvcpPacket

record round =
  now_ms :: int
  poll_ready :: bool
  received :: socket_receive
  now_pending_ms :: int

record attempt =
  send_ok :: bool
  sent_at_ms :: int
  rounds :: "round list"

text \<open>
  The trace of packets, as \<^verbatim>\<open>arv_gvcp_packet_debug\<close> prints them: each request before
  it is sent, each frame the receive loop examines.
\<close>

datatype trace_event =
  TraceCmd ArvGvcpCommand nat nat "16 word"
| TraceAck ArvGvcpPacketType nat ArvGvcpCommand "16 word"

record wire =
  script :: "attempt list list"
  trace :: "trace_event list"

subsection \<open>Integer conversions of the C code\<close>

text \<open>
  \<^verbatim>\<open>gint timeout_ms\<close> receives a \<^verbatim>\<open>gint64\<close> difference; \<^verbatim>\<open>int count\<close> is compared
  with \<^verbatim>\<open>size_t\<close> values, so it is converted to \<^verbatim>\<open>size_t\<close> first and the -1 of a
  failed receive becomes the largest \<^verbatim>\<open>size_t\<close>, above every size it is compared with.
\<close>

definition to_gint :: "int \<Rightarrow> int" where
  "to_gint x = signed_take_bit 31 x"

definition size_t_ge :: "int \<Rightarrow> nat \<Rightarrow> bool" where
  "size_t_ge count n = (count < 0 \<or> n \<le> nat count)"

subsection \<open>\<^verbatim>\<open>_send_cmd_and_receive_ack\<close>\<close>

record exchange_state =
  x_buffer :: ArvGvcpPacket
  x_timeout_stop_ms :: int
  x_command_error :: nat
  x_n_retries :: nat
  x_trace :: "trace_event list"

fun expected_ack :: "gvcp_params \<Rightarrow> ArvGvcpCommand \<Rightarrow> nat \<Rightarrow> (ArvGvcpCommand \<times> nat) option" where
  "expected_ack P ARV_GVCP_COMMAND_READ_MEMORY_CMD sz =
     Some (ARV_GVCP_COMMAND_READ_MEMORY_ACK, get_read_memory_ack_size P sz)"
| "expected_ack P ARV_GVCP_COMMAND_WRITE_MEMORY_CMD sz =
     Some (ARV_GVCP_COMMAND_WRITE_MEMORY_ACK, get_write_memory_ack_size P)"
| "expected_ack P ARV_GVCP_COMMAND_READ_REGISTER_CMD sz =
     Some (ARV_GVCP_COMMAND_READ_REGISTER_ACK, get_read_register_ack_size P)"
| "expected_ack P ARV_GVCP_COMMAND_WRITE_REGISTER_CMD sz =
     Some (ARV_GVCP_COMMAND_WRITE_REGISTER_ACK, get_write_register_ack_size P)"
| "expected_ack P _ sz = None"

definition trace_ack :: "ArvGvcpPacket \<Rightarrow> trace_event" where
  "trace_ack p = TraceAck (get_packet_type p) (get_packet_flags p) (get_command p) (get_packet_id p)"

datatype rx_step = Continue exchange_state | Done bool exchange_state

text \<open>
  The body of the inner \<^verbatim>\<open>do ... while (pending_ack || (!expected_answer && timeout_ms > 0))\<close>.
  \<open>Done ok st\<close> leaves the loop with \<^verbatim>\<open>success && expected_answer\<close> equal to \<open>ok\<close>.
\<close>

definition receive_iteration ::
  "gvcp_params \<Rightarrow> ArvGvcpCommand \<Rightarrow> 16 word \<Rightarrow> nat \<Rightarrow> exchange_state \<Rightarrow> round \<Rightarrow> rx_step" where
  "receive_iteration P expected_ack_command pid ack_size st r =
    (let timeout_ms = max 0 (to_gint (x_timeout_stop_ms st - now_ms r));
         count = (if poll_ready r
                  then (case received r of RecvError \<Rightarrow> - 1 | Datagram n v \<Rightarrow> int n)
                  else 0);
         ack_packet = (if poll_ready r
                  then (case received r of RecvError \<Rightarrow> x_buffer st | Datagram n v \<Rightarrow> v)
                  else x_buffer st);
         st0 = st\<lparr>x_buffer := ack_packet\<rparr>
     in if poll_ready r \<and> size_t_ge count (sizeof_ArvGvcpHeader P) then
          (let st1 = st0\<lparr>x_trace := x_trace st0 @ [trace_ack ack_packet]\<rparr> in
           if get_command ack_packet = ARV_GVCP_COMMAND_PENDING_ACK \<and>
              size_t_ge count (get_pending_ack_size P) then
             Continue (st1\<lparr>x_timeout_stop_ms :=
                              now_pending_ms r + get_pending_ack_timeout ack_packet\<rparr>)
           else if get_packet_type ack_packet = ARV_GVCP_PACKET_TYPE_ERROR \<or>
                   get_packet_type ack_packet = ARV_GVCP_PACKET_TYPE_UNKNOWN_ERROR then
             (if get_command ack_packet = expected_ack_command \<and> get_packet_id ack_packet = pid
              then Done True (st1\<lparr>x_command_error := get_packet_flags ack_packet\<rparr>)
              else if 0 < timeout_ms then Continue st1 else Done False st1)
           else
             (if get_packet_type ack_packet = ARV_GVCP_PACKET_TYPE_ACK \<and>
                 get_command ack_packet = expected_ack_command \<and>
                 get_packet_id ack_packet = pid \<and>
                 size_t_ge count ack_size
              then Done True st1
              else if 0 < timeout_ms then Continue st1 else Done False st1))
        else if 0 < timeout_ms then Continue st0 else Done False st0)"

fun receive_loop ::
  "gvcp_params \<Rightarrow> ArvGvcpCommand \<Rightarrow> 16 word \<Rightarrow> nat \<Rightarrow> exchange_state \<Rightarrow> round list
     \<Rightarrow> (bool \<times> exchange_state) outcome" where
  "receive_loop P e pid a st [] = Starved"
| "receive_loop P e pid a st (r # rs) =
     (case receive_iteration P e pid a st r of
        Continue st' \<Rightarrow> receive_loop P e pid a st' rs
      | Done ok st' \<Rightarrow> Returned (ok, st'))"

text \<open>
  What a successful exchange stores in the caller's buffer, and what a failed one does.
  The callers in this file pair the memory commands with a byte buffer and the register
  commands with a \<^verbatim>\<open>guint32\<close>; the other pairings do not occur and leave the buffer as
  it is.
\<close>

fun store_ack :: "ArvGvcpCommand \<Rightarrow> caller_buffer \<Rightarrow> ArvGvcpPacket \<Rightarrow> nat \<Rightarrow> caller_buffer" where
  "store_ack ARV_GVCP_COMMAND_READ_MEMORY_CMD (Bytes bs) p sz =
     Bytes (map (get_read_memory_ack_data p) [0..<sz] @ drop sz bs)"
| "store_ack ARV_GVCP_COMMAND_READ_REGISTER_CMD (Word32 v) p sz =
     Word32 (get_read_register_ack_value p)"
| "store_ack _ b p sz = b"

fun clear_buffer :: "ArvGvcpCommand \<Rightarrow> caller_buffer \<Rightarrow> nat \<Rightarrow> caller_buffer" where
  "clear_buffer ARV_GVCP_COMMAND_READ_MEMORY_CMD (Bytes bs) sz =
     Bytes (replicate sz 0 @ drop sz bs)"
| "clear_buffer ARV_GVCP_COMMAND_READ_REGISTER_CMD (Word32 v) sz = Word32 0"
| "clear_buffer _ b sz = b"

text \<open>The outer \<^verbatim>\<open>do ... while (!success && n_retries < io_data->gvcp_n_retries)\<close>.\<close>

fun attempt_loop ::
  "gvcp_params \<Rightarrow> ArvGvDeviceIOData \<Rightarrow> ArvGvcpCommand \<Rightarrow> nat \<Rightarrow> nat \<Rightarrow> ArvGvcpCommand
     \<Rightarrow> 16 word \<Rightarrow> nat \<Rightarrow> exchange_state \<Rightarrow> caller_buffer \<Rightarrow> attempt list
     \<Rightarrow> (bool \<times> exchange_state \<times> caller_buffer) outcome" where
  "attempt_loop P io command address sz e pid a st buf [] = Starved"
| "attempt_loop P io command address sz e pid a st buf (t # ts) =
     (let st1 = st\<lparr>x_trace := x_trace st @ [TraceCmd command address sz pid]\<rparr> in
      if send_ok t then
        (case receive_loop P e pid a
                (st1\<lparr>x_timeout_stop_ms := sent_at_ms t + int (gvcp_timeout_ms io)\<rparr>) (rounds t) of
           Returned (success, st2) \<Rightarrow>
             (let buf' = (if success \<and> x_command_error st2 = ARV_GVCP_ERROR_NONE P
                          then store_ack command buf (x_buffer st2) sz else buf);
                  st3 = st2\<lparr>x_n_retries := x_n_retries st2 + 1\<rparr>
              in if \<not> success \<and> x_n_retries st3 < gvcp_n_retries io
                 then attempt_loop P io command address sz e pid a st3 buf' ts
                 else Returned (success, st3, buf'))
         | Aborted \<Rightarrow> Aborted
         | Starved \<Rightarrow> Starved)
      else
        (let st3 = st1\<lparr>x_n_retries := x_n_retries st1 + 1\<rparr>
         in if x_n_retries st3 < gvcp_n_retries io
            then attempt_loop P io command address sz e pid a st3 buf ts
            else Returned (False, st3, buf)))"

record exchange_result =
  r_success :: bool
  r_buffer :: caller_buffer
  r_error :: gerror_ptr
  r_io :: ArvGvDeviceIOData
  r_wire :: wire

definition report_error :: "gvcp_params \<Rightarrow> nat \<Rightarrow> gerror_ptr \<Rightarrow> gerror_ptr" where
  "report_error P command_error error =
     (case error of
        Some None \<Rightarrow>
          Some (Some (if command_error \<noteq> ARV_GVCP_ERROR_NONE P
                      then ARV_DEVICE_ERROR_PROTOCOL_ERROR command_error
                      else ARV_DEVICE_ERROR_TIMEOUT))
      | _ \<Rightarrow> error)"

definition send_cmd_and_receive_ack ::
  "gvcp_params \<Rightarrow> ArvGvDeviceIOData \<Rightarrow> wire \<Rightarrow> ArvGvcpCommand \<Rightarrow> nat \<Rightarrow> nat
     \<Rightarrow> caller_buffer \<Rightarrow> gerror_ptr \<Rightarrow> exchange_result outcome" where
  "send_cmd_and_receive_ack P io w command address sz buf error =
     (case expected_ack P command sz of
        None \<Rightarrow> Aborted
      | Some (expected_ack_command, ack_size) \<Rightarrow>
          if \<not> ack_size \<le> ARV_GV_DEVICE_BUFFER_SIZE P then
            Returned \<lparr>r_success = False, r_buffer = buf, r_error = error, r_io = io, r_wire = w\<rparr>
          else
            (case script w of
               [] \<Rightarrow> Starved
             | attempts # rest \<Rightarrow>
                 (let pid = arv_gvcp_next_packet_id (packet_id io);
                      st = \<lparr>x_buffer = buffer io, x_timeout_stop_ms = 0,
                            x_command_error = ARV_GVCP_ERROR_NONE P, x_n_retries = 0,
                            x_trace = []\<rparr>
                  in case attempt_loop P io command address sz expected_ack_command pid
                            ack_size st buf attempts of
                       Returned (ok, st', buf') \<Rightarrow>
                         (let success = (ok \<and> x_command_error st' = ARV_GVCP_ERROR_NONE P)
                          in Returned
                               \<lparr>r_success = success,
                                r_buffer = (if success then buf' else clear_buffer command buf' sz),
                                r_error = (if success then error
                                           else report_error P (x_command_error st') error),
                                r_io = io\<lparr>packet_id := pid, buffer := x_buffer st'\<rparr>,
                                r_wire = w\<lparr>script := rest, trace := trace w @ x_trace st'\<rparr>\<rparr>)
                     | Aborted \<Rightarrow> Aborted
                     | Starved \<Rightarrow> Starved)))"

subsection \<open>Predicates on traces and frames used to state the properties of an exchange\<close>

text \<open>
  A traced frame is a matching error ack when its packet type is one of the two error types
  and it carries the expected ack command and the identifier of the current request.
\<close>

fun is_matching_error_ack :: "ArvGvcpCommand \<Rightarrow> 16 word \<Rightarrow> trace_event \<Rightarrow> bool" where
  "is_matching_error_ack e pid (TraceAck t f c i) =
     ((t = ARV_GVCP_PACKET_TYPE_ERROR \<or> t = ARV_GVCP_PACKET_TYPE_UNKNOWN_ERROR) \<and> c = e \<and> i = pid)"
| "is_matching_error_ack e pid (TraceCmd c a s i) = False"

definition error_ack_received :: "ArvGvcpCommand \<Rightarrow> 16 word \<Rightarrow> trace_event list \<Rightarrow> bool" where
  "error_ack_received e pid tr = list_ex (is_matching_error_ack e pid) tr"

text \<open>
  The matching rule in the words of the specification: the command equals the expected ack
  command, the identifier equals the identifier of the current request and, for a normal
  ack, the size \<open>n\<close> of the datagram is at least the expected ack size.
\<close>

definition ack_matches :: "ArvGvcpCommand \<Rightarrow> 16 word \<Rightarrow> nat \<Rightarrow> nat \<Rightarrow> ArvGvcpPacket \<Rightarrow> bool" where
  "ack_matches e pid ack_size n v =
     (get_command v = e \<and> get_packet_id v = pid \<and>
      (get_packet_type v = ARV_GVCP_PACKET_TYPE_ERROR \<or>
       get_packet_type v = ARV_GVCP_PACKET_TYPE_UNKNOWN_ERROR \<or>
       (get_packet_type v = ARV_GVCP_PACKET_TYPE_ACK \<and> ack_size \<le> n)))"

subsection \<open>Example values\<close>

text \<open>
  Concrete parameters (a header of 8 bytes, acks of 12 bytes, a scratch buffer of 1024
  bytes, transfers of at most 512 bytes) and a concrete session, on which the theorems
  below are instantiated.
\<close>

definition example_params :: gvcp_params where
  "example_params =
     \<lparr>sizeof_ArvGvcpHeader = 8, get_pending_ack_size = 12,
      get_read_memory_ack_size = (\<lambda>n. 12 + n), get_write_memory_ack_size = 12,
      get_read_register_ack_size = 12, get_write_register_ack_size = 12,
      ARV_GV_DEVICE_BUFFER_SIZE = 1024, ARV_GVCP_DATA_SIZE_MAX = 512,
      ARV_GVCP_ERROR_NONE = 0\<rparr>"

definition example_packet ::
  "ArvGvcpPacketType \<Rightarrow> nat \<Rightarrow> ArvGvcpCommand \<Rightarrow> 16 word \<Rightarrow> ArvGvcpPacket" where
  "example_packet t f c i =
     \<lparr>get_packet_type = t, get_packet_flags = f, get_command = c, get_packet_id = i,
      get_pending_ack_timeout = 2000, get_read_memory_ack_data = (\<lambda>k. 0),
      get_read_register_ack_value = 0\<rparr>"

definition example_io :: ArvGvDeviceIOData where
  "example_io =
     \<lparr>packet_id = 65300,
      buffer = example_packet ARV_GVCP_PACKET_TYPE_OTHER 0 ARV_GVCP_COMMAND_OTHER 0,
      gvcp_n_retries = 6, gvcp_timeout_ms = 500, is_controller = True\<rparr>"

definition example_round :: "int \<Rightarrow> ArvGvcpPacket \<Rightarrow> round" where
  "example_round t p =
     \<lparr>now_ms = t, poll_ready = True, received = Datagram 12 p, now_pending_ms = t\<rparr>"

definition example_state :: exchange_state where
  "example_state =
     \<lparr>x_buffer = buffer example_io, x_timeout_stop_ms = 500, x_command_error = 0,
      x_n_retries = 0, x_trace = []\<rparr>"

text \<open>
  A read-register ack that carries the identifier of the request but arrives with the 8
  bytes of the header only, a round that receives it, and a round in which the socket is
  ready and \<^verbatim>\<open>g_socket_receive\<close> fails.
\<close>

definition example_truncated_ack :: ArvGvcpPacket where
  "example_truncated_ack =
     (example_packet ARV_GVCP_PACKET_TYPE_ACK 0 ARV_GVCP_COMMAND_READ_REGISTER_ACK 65301)
       \<lparr>get_read_register_ack_value := 77\<rparr>"

definition example_truncated_round :: round where
  "example_truncated_round =
     \<lparr>now_ms = 100, poll_ready = True, received = Datagram 8 example_truncated_ack,
      now_pending_ms = 100\<rparr>"

definition example_failed_receive :: round where
  "example_failed_receive =
     \<lparr>now_ms = 200, poll_ready = True, received = RecvError, now_pending_ms = 200\<rparr>"

subsection \<open>Block I/O: \<^verbatim>\<open>arv_gv_device_read_memory\<close> and \<^verbatim>\<open>arv_gv_device_write_memory\<close>\<close>

definition read_memory ::
  "gvcp_params \<Rightarrow> ArvGvDeviceIOData \<Rightarrow> wire \<Rightarrow> nat \<Rightarrow> nat \<Rightarrow> caller_buffer \<Rightarrow> gerror_ptr
     \<Rightarrow> exchange_result outcome" where
  "read_memory P io w address sz buf error =
     send_cmd_and_receive_ack P io w ARV_GVCP_COMMAND_READ_MEMORY_CMD address sz buf error"

definition write_memory ::
  "gvcp_params \<Rightarrow> ArvGvDeviceIOData \<Rightarrow> wire \<Rightarrow> nat \<Rightarrow> nat \<Rightarrow> caller_buffer \<Rightarrow> gerror_ptr
     \<Rightarrow> exchange_result outcome" where
  "write_memory P io w address sz buf error =
     send_cmd_and_receive_ack P io w ARV_GVCP_COMMAND_WRITE_MEMORY_CMD address sz buf error"

definition read_register ::
  "gvcp_params \<Rightarrow> ArvGvDeviceIOData \<Rightarrow> wire \<Rightarrow> nat \<Rightarrow> 32 word \<Rightarrow> gerror_ptr
     \<Rightarrow> exchange_result outcome" where
  "read_register P io w address value_placeholder error =
     send_cmd_and_receive_ack P io w ARV_GVCP_COMMAND_READ_REGISTER_CMD address 4
       (Word32 value_placeholder) error"

definition write_register ::
  "gvcp_params \<Rightarrow> ArvGvDeviceIOData \<Rightarrow> wire \<Rightarrow> nat \<Rightarrow> 32 word \<Rightarrow> gerror_ptr
     \<Rightarrow> exchange_result outcome" where
  "write_register P io w address val error =
     send_cmd_and_receive_ack P io w ARV_GVCP_COMMAND_WRITE_REGISTER_CMD address 4
       (Word32 val) error"

text \<open>
  The bound of the chunk loop, \<^verbatim>\<open>(size + ARV_GVCP_DATA_SIZE_MAX - 1) / ARV_GVCP_DATA_SIZE_MAX\<close>:
  \<^verbatim>\<open>size\<close> is a \<^verbatim>\<open>guint32\<close> and the constant an \<^verbatim>\<open>int\<close>, so the sum is computed in
  32-bit unsigned arithmetic and wraps around.
\<close>

definition n_blocks :: "gvcp_params \<Rightarrow> nat \<Rightarrow> nat" where
  "n_blocks P sz =
     ((sz + ARV_GVCP_DATA_SIZE_MAX P + 2 ^ 32 - 1) mod 2 ^ 32) div ARV_GVCP_DATA_SIZE_MAX P"

text \<open>
  \<^verbatim>\<open>MIN (ARV_GVCP_DATA_SIZE_MAX, size - i * ARV_GVCP_DATA_SIZE_MAX)\<close>, the subtraction in
  32-bit unsigned arithmetic.
\<close>

definition block_size :: "gvcp_params \<Rightarrow> nat \<Rightarrow> nat \<Rightarrow> nat" where
  "block_size P sz i =
     min (ARV_GVCP_DATA_SIZE_MAX P)
         (nat ((int sz - int (i * ARV_GVCP_DATA_SIZE_MAX P)) mod 2 ^ 32))"

definition bytes_of :: "caller_buffer \<Rightarrow> 8 word list \<Rightarrow> 8 word list" where
  "bytes_of b d = (case b of Bytes bs \<Rightarrow> bs | Word32 v \<Rightarrow> d)"

text \<open>
  The \<^verbatim>\<open>for\<close> loop shared by the two functions, from index \<open>i\<close> on; \<open>xfer\<close> is
  \<^verbatim>\<open>_read_memory\<close> or \<^verbatim>\<open>_write_memory\<close>. The product \<^verbatim>\<open>i * ARV_GVCP_DATA_SIZE_MAX\<close>
  is an \<^verbatim>\<open>int\<close>: beyond \<open>2^31 - 1\<close> it is undefined behaviour, and so is the division when
  the constant is zero.
\<close>

function block_loop ::
  "(gvcp_params \<Rightarrow> ArvGvDeviceIOData \<Rightarrow> wire \<Rightarrow> nat \<Rightarrow> nat \<Rightarrow> caller_buffer \<Rightarrow> gerror_ptr
      \<Rightarrow> exchange_result outcome)
   \<Rightarrow> gvcp_params \<Rightarrow> ArvGvDeviceIOData \<Rightarrow> wire \<Rightarrow> nat \<Rightarrow> nat \<Rightarrow> 8 word list \<Rightarrow> gerror_ptr
   \<Rightarrow> nat \<Rightarrow> exchange_result outcome" where
  "block_loop xfer P io w address sz bs error i =
     (if ARV_GVCP_DATA_SIZE_MAX P = 0 then Aborted
      else if i < n_blocks P sz then
        (if 2 ^ 31 \<le> i * ARV_GVCP_DATA_SIZE_MAX P then Aborted
         else
           (let offset = i * ARV_GVCP_DATA_SIZE_MAX P in
            case xfer P io w ((address + offset) mod 2 ^ 64) (block_size P sz i)
                   (Bytes (drop offset bs)) error of
              Returned r \<Rightarrow>
                (let bs' = take offset bs @ bytes_of (r_buffer r) (drop offset bs) in
                 if \<not> r_success r
                 then Returned (r\<lparr>r_success := False, r_buffer := Bytes bs'\<rparr>)
                 else block_loop xfer P (r_io r) (r_wire r) address sz bs' (r_error r) (i + 1))
            | Aborted \<Rightarrow> Aborted
            | Starved \<Rightarrow> Starved))
      else Returned \<lparr>r_success = True, r_buffer = Bytes bs, r_error = error, r_io = io,
                     r_wire = w\<rparr>)"
  by pat_completeness auto
termination
  by (relation "measure (\<lambda>(xfer, P, io, w, address, sz, bs, error, i). n_blocks P sz - i)") auto

declare block_loop.simps [simp del]

definition arv_gv_device_read_memory ::
  "gvcp_params \<Rightarrow> ArvGvDeviceIOData \<Rightarrow> wire \<Rightarrow> nat \<Rightarrow> nat \<Rightarrow> 8 word list \<Rightarrow> gerror_ptr
     \<Rightarrow> exchange_result outcome" where
  "arv_gv_device_read_memory P io w address sz bs error =
     block_loop read_memory P io w address sz bs error 0"

definition arv_gv_device_write_memory ::
  "gvcp_params \<Rightarrow> ArvGvDeviceIOData \<Rightarrow> wire \<Rightarrow> nat \<Rightarrow> nat \<Rightarrow> 8 word list \<Rightarrow> gerror_ptr
     \<Rightarrow> exchange_result outcome" where
  "arv_gv_device_write_memory P io w address sz bs error =
     block_loop write_memory P io w address sz bs error 0"

text \<open>The \<^verbatim>\<open>guint64\<close> address is passed on as a \<^verbatim>\<open>guint32\<close>.\<close>

definition arv_gv_device_read_register ::
  "gvcp_params \<Rightarrow> ArvGvDeviceIOData \<Rightarrow> wire \<Rightarrow> nat \<Rightarrow> 32 word \<Rightarrow> gerror_ptr
     \<Rightarrow> exchange_result outcome" where
  "arv_gv_device_read_register P io w address val error =
     read_register P io w (address mod 2 ^ 32) val error"

definition arv_gv_device_write_register ::
  "gvcp_params \<Rightarrow> ArvGvDeviceIOData \<Rightarrow> wire \<Rightarrow> nat \<Rightarrow> 32 word \<Rightarrow> gerror_ptr
     \<Rightarrow> exchange_result outcome" where
  "arv_gv_device_write_register P io w address val error =
     write_register P io w (address mod 2 ^ 32) val error"

subsection \<open>Privilege lease and heartbeat\<close>

text \<open>Bootstrap register offsets and bits (arvgvcpprivate.h, not in the sources).\<close>

record gvbs_params =
  ARV_GVBS_CONTROL_CHANNEL_PRIVILEGE_OFFSET :: nat
  ARV_GVBS_CONTROL_CHANNEL_PRIVILEGE_CONTROL :: "32 word"
  ARV_GVBS_CONTROL_CHANNEL_PRIVILEGE_EXCLUSIVE :: "32 word"
  ARV_GVBS_XML_URL_0_OFFSET :: nat
  ARV_GVBS_XML_URL_1_OFFSET :: nat
  ARV_GVBS_XML_URL_SIZE :: nat

definition word32_of :: "caller_buffer \<Rightarrow> 32 word \<Rightarrow> 32 word" where
  "word32_of b d = (case b of Word32 v \<Rightarrow> v | Bytes bs \<Rightarrow> d)"

definition arv_gv_device_take_control ::
  "gvcp_params \<Rightarrow> gvbs_params \<Rightarrow> ArvGvDeviceIOData \<Rightarrow> wire \<Rightarrow> gerror_ptr
     \<Rightarrow> exchange_result outcome" where
  "arv_gv_device_take_control P B io w error =
     (case arv_gv_device_write_register P io w (ARV_GVBS_CONTROL_CHANNEL_PRIVILEGE_OFFSET B)
             (ARV_GVBS_CONTROL_CHANNEL_PRIVILEGE_CONTROL B) error of
        Returned r \<Rightarrow>
          Returned (if r_success r then r\<lparr>r_io := (r_io r)\<lparr>is_controller := True\<rparr>\<rparr> else r)
      | Aborted \<Rightarrow> Aborted
      | Starved \<Rightarrow> Starved)"

definition arv_gv_device_leave_control ::
  "gvcp_params \<Rightarrow> gvbs_params \<Rightarrow> ArvGvDeviceIOData \<Rightarrow> wire \<Rightarrow> gerror_ptr
     \<Rightarrow> exchange_result outcome" where
  "arv_gv_device_leave_control P B io w error =
     (case arv_gv_device_write_register P io w (ARV_GVBS_CONTROL_CHANNEL_PRIVILEGE_OFFSET B)
             0 error of
        Returned r \<Rightarrow>
          Returned (if r_success r then r\<lparr>r_io := (r_io r)\<lparr>is_controller := False\<rparr>\<rparr> else r)
      | Aborted \<Rightarrow> Aborted
      | Starved \<Rightarrow> Starved)"

text \<open>
  The environment of one iteration of the heartbeat thread: for each failed read of the
  privilege register, whether the retry timer is still below
  \<^verbatim>\<open>ARV_GV_DEVICE_HEARTBEAT_RETRY_TIMEOUT_S\<close> and whether the cancellable is cancelled;
  then the two later tests of the cancellable.
\<close>

record heartbeat_round =
  retry_checks :: "(bool \<times> bool) list"
  cancelled_after_read :: bool
  cancelled_at_end :: bool

text \<open>
  The state of the thread: the shared session data, the network, the local \<^verbatim>\<open>value\<close>
  and the number of control-lost signals emitted so far.
\<close>

record heartbeat_state =
  hb_io :: ArvGvDeviceIOData
  hb_wire :: wire
  hb_value :: "32 word"
  hb_control_lost :: nat

text \<open>
  \<^verbatim>\<open>while (!_read_register (...) && g_timer_elapsed (timer, NULL) < ... && !g_cancellable_is_cancelled (...))\<close>
\<close>

fun heartbeat_read ::
  "gvcp_params \<Rightarrow> gvbs_params \<Rightarrow> ArvGvDeviceIOData \<Rightarrow> wire \<Rightarrow> 32 word \<Rightarrow> (bool \<times> bool) list
     \<Rightarrow> (ArvGvDeviceIOData \<times> wire \<times> 32 word) outcome" where
  "heartbeat_read P B io w val checks =
     (case read_register P io w (ARV_GVBS_CONTROL_CHANNEL_PRIVILEGE_OFFSET B) val None of
        Returned r \<Rightarrow>
          (if r_success r then Returned (r_io r, r_wire r, word32_of (r_buffer r) val)
           else
             (case checks of
                [] \<Rightarrow> Starved
              | (in_time, cancelled) # cs \<Rightarrow>
                  if in_time \<and> \<not> cancelled
                  then heartbeat_read P B (r_io r) (r_wire r) (word32_of (r_buffer r) val) cs
                  else Returned (r_io r, r_wire r, word32_of (r_buffer r) val)))
      | Aborted \<Rightarrow> Aborted
      | Starved \<Rightarrow> Starved)"

declare heartbeat_read.simps [simp del]

text \<open>The body of the \<^verbatim>\<open>do ... while\<close> of the thread, after the sleep.\<close>

definition heartbeat_iteration ::
  "gvcp_params \<Rightarrow> gvbs_params \<Rightarrow> heartbeat_state \<Rightarrow> heartbeat_round \<Rightarrow> heartbeat_state outcome" where
  "heartbeat_iteration P B st env =
     (if is_controller (hb_io st) then
        (case heartbeat_read P B (hb_io st) (hb_wire st) (hb_value st) (retry_checks env) of
           Returned (io', w', val) \<Rightarrow>
             (if \<not> cancelled_after_read env then
                (if val AND (ARV_GVBS_CONTROL_CHANNEL_PRIVILEGE_CONTROL B OR
                             ARV_GVBS_CONTROL_CHANNEL_PRIVILEGE_EXCLUSIVE B) = 0
                 then Returned \<lparr>hb_io = io'\<lparr>is_controller := False\<rparr>, hb_wire = w',
                                 hb_value = val, hb_control_lost = hb_control_lost st + 1\<rparr>
                 else Returned \<lparr>hb_io = io', hb_wire = w', hb_value = val,
                                 hb_control_lost = hb_control_lost st\<rparr>)
              else Returned \<lparr>hb_io = io'\<lparr>is_controller := False\<rparr>, hb_wire = w',
                              hb_value = val, hb_control_lost = hb_control_lost st\<rparr>)
         | Aborted \<Rightarrow> Aborted
         | Starved \<Rightarrow> Starved)
      else Returned st)"

text \<open>
  The thread, run on the rounds of the list: the state at its exit when the cancellable is
  found cancelled at the end of an iteration, and otherwise the state reached after the
  last round of the list.
\<close>

fun arv_gv_device_heartbeat_thread ::
  "gvcp_params \<Rightarrow> gvbs_params \<Rightarrow> heartbeat_state \<Rightarrow> heartbeat_round list \<Rightarrow> heartbeat_state outcome" where
  "arv_gv_device_heartbeat_thread P B st [] = Returned st"
| "arv_gv_device_heartbeat_thread P B st (env # envs) =
     (case heartbeat_iteration P B st env of
        Returned st' \<Rightarrow>
          if cancelled_at_end env then Returned st'
          else arv_gv_device_heartbeat_thread P B st' envs
      | Aborted \<Rightarrow> Aborted
      | Starved \<Rightarrow> Starved)"

definition example_gvbs :: gvbs_params where
  "example_gvbs =
     \<lparr>ARV_GVBS_CONTROL_CHANNEL_PRIVILEGE_OFFSET = 2560,
      ARV_GVBS_CONTROL_CHANNEL_PRIVILEGE_CONTROL = 2,
      ARV_GVBS_CONTROL_CHANNEL_PRIVILEGE_EXCLUSIVE = 1,
      ARV_GVBS_XML_URL_0_OFFSET = 512, ARV_GVBS_XML_URL_1_OFFSET = 1024,
      ARV_GVBS_XML_URL_SIZE = 512\<rparr>"

definition example_heartbeat :: heartbeat_state where
  "example_heartbeat =
     \<lparr>hb_io = example_io,
      hb_wire = \<lparr>script = [[\<lparr>send_ok = True, sent_at_ms = 0,
                     rounds = [example_round 1 (example_packet ARV_GVCP_PACKET_TYPE_ACK 0
                                  ARV_GVCP_COMMAND_READ_REGISTER_ACK 65301)]\<rparr>]],
                 trace = []\<rparr>,
      hb_value = 3, hb_control_lost = 0\<rparr>"

subsection \<open>Schema bootstrap: \<^verbatim>\<open>_load_genicam\<close> and \<^verbatim>\<open>_get_genicam_xml\<close>\<close>

text \<open>
  GLib's \<^verbatim>\<open>g_ascii_strcasecmp\<close>: the difference of the first two characters that differ
  after ASCII lower-casing, 0 for equal strings, and 0 (after a warning) when the first
  string is \<^verbatim>\<open>NULL\<close>. \<^verbatim>\<open>g_str_has_suffix\<close> likewise.
\<close>

definition g_ascii_tolower :: "char \<Rightarrow> nat" where
  "g_ascii_tolower c =
     (if 65 \<le> (of_char c :: nat) \<and> (of_char c :: nat) \<le> 90 then of_char c + 32 else of_char c)"

fun ascii_strcasecmp :: "string \<Rightarrow> string \<Rightarrow> int" where
  "ascii_strcasecmp [] [] = 0"
| "ascii_strcasecmp [] (y # ys) = - int (of_char y)"
| "ascii_strcasecmp (x # xs) [] = int (of_char x)"
| "ascii_strcasecmp (x # xs) (y # ys) =
     (if g_ascii_tolower x \<noteq> g_ascii_tolower y
      then int (g_ascii_tolower x) - int (g_ascii_tolower y)
      else ascii_strcasecmp xs ys)"

definition g_ascii_strcasecmp :: "string option \<Rightarrow> string \<Rightarrow> int" where
  "g_ascii_strcasecmp s1 s2 = (case s1 of None \<Rightarrow> 0 | Some s \<Rightarrow> ascii_strcasecmp s s2)"

definition g_str_has_suffix :: "string \<Rightarrow> string \<Rightarrow> bool" where
  "g_str_has_suffix s suffix =
     (length suffix \<le> length s \<and> drop (length s - length suffix) s = suffix)"

text \<open>
  The collaborators of the loader outside this file: the URL parser (it leaves its outputs
  untouched when the URL does not parse), the file system, GIO's reader of a URI (no stream,
  or a stream whose content is read up to its end), the ZIP helper (no file in the archive,
  or the content and size of its first file), and the content of memory that has been
  allocated and not written yet.
\<close>

record genicam_url =
  url_scheme :: string
  url_path :: string
  url_file_address :: nat
  url_file_size :: nat

record host_env =
  arv_parse_genicam_url :: "8 word list \<Rightarrow> genicam_url option"
  g_file_get_contents :: "string \<Rightarrow> 8 word list option"
  g_file_read_uri :: "8 word list \<Rightarrow> 8 word list option option"
  arv_zip_first_file :: "8 word list \<Rightarrow> nat \<Rightarrow> (8 word list option \<times> nat) option"
  uninitialised :: "nat \<Rightarrow> 8 word list"

record load_result =
  l_genicam :: "8 word list option"
  l_size :: nat
  l_error :: gerror_ptr
  l_io :: ArvGvDeviceIOData
  l_wire :: wire
  l_critical :: "8 word list list"

definition c_string :: "8 word list \<Rightarrow> 8 word list" where
  "c_string bs = takeWhile (\<lambda>b. b \<noteq> 0) bs"

definition size_of_contents :: "8 word list option \<Rightarrow> nat" where
  "size_of_contents g = (case g of None \<Rightarrow> 0 | Some bs \<Rightarrow> length bs)"

text \<open>The \<^verbatim>\<open>local\<close> branch: the file is read from the memory of the device.\<close>

definition load_local ::
  "gvcp_params \<Rightarrow> host_env \<Rightarrow> ArvGvDeviceIOData \<Rightarrow> wire \<Rightarrow> gerror_ptr \<Rightarrow> genicam_url
     \<Rightarrow> load_result outcome" where
  "load_local P H io w error u =
     (if 0 < url_file_size u then
        (case arv_gv_device_read_memory P io w (url_file_address u) (url_file_size u mod 2 ^ 32)
                (uninitialised H (url_file_size u)) None of
           Returned r \<Rightarrow>
             (if r_success r then
                (let genicam = bytes_of (r_buffer r) [] in
                 if g_str_has_suffix (url_path u) ''.zip'' then
                   (case arv_zip_first_file H genicam (url_file_size u) of
                      Some (tmp_buffer, tmp_buffer_size) \<Rightarrow>
                        Returned \<lparr>l_genicam = tmp_buffer, l_size = tmp_buffer_size,
                                  l_error = error, l_io = r_io r, l_wire = r_wire r,
                                  l_critical = []\<rparr>
                    | None \<Rightarrow>
                        Returned \<lparr>l_genicam = Some genicam, l_size = url_file_size u,
                                  l_error = error, l_io = r_io r, l_wire = r_wire r,
                                  l_critical = []\<rparr>)
                 else Returned \<lparr>l_genicam = Some genicam, l_size = url_file_size u,
                                 l_error = error, l_io = r_io r, l_wire = r_wire r,
                                 l_critical = []\<rparr>)
              else Returned \<lparr>l_genicam = None, l_size = 0, l_error = error, l_io = r_io r,
                              l_wire = r_wire r, l_critical = []\<rparr>)
         | Aborted \<Rightarrow> Aborted
         | Starved \<Rightarrow> Starved)
      else Returned \<lparr>l_genicam = None, l_size = 0, l_error = error, l_io = io, l_wire = w,
                      l_critical = []\<rparr>)"

definition load_genicam ::
  "gvcp_params \<Rightarrow> gvbs_params \<Rightarrow> host_env \<Rightarrow> ArvGvDeviceIOData \<Rightarrow> wire \<Rightarrow> nat \<Rightarrow> gerror_ptr
     \<Rightarrow> load_result outcome" where
  "load_genicam P B H io w address error =
     (if ARV_GVBS_XML_URL_SIZE B = 0 then Aborted
      else
        (case arv_gv_device_read_memory P io w address (ARV_GVBS_XML_URL_SIZE B)
                (uninitialised H (ARV_GVBS_XML_URL_SIZE B)) error of
           Returned r \<Rightarrow>
             (if \<not> r_success r then
                Returned \<lparr>l_genicam = None, l_size = 0, l_error = r_error r, l_io = r_io r,
                          l_wire = r_wire r, l_critical = []\<rparr>
              else
                (let filename = c_string ((bytes_of (r_buffer r) [])[ARV_GVBS_XML_URL_SIZE B - 1 := 0]);
                     url = arv_parse_genicam_url H filename;
                     scheme = map_option url_scheme url
                 in if g_ascii_strcasecmp scheme ''file'' = 0 then
                      (let genicam = (case url of None \<Rightarrow> None
                                      | Some u \<Rightarrow> g_file_get_contents H (url_path u))
                       in Returned \<lparr>l_genicam = genicam, l_size = size_of_contents genicam,
                                    l_error = r_error r, l_io = r_io r, l_wire = r_wire r,
                                    l_critical = []\<rparr>)
                    else if g_ascii_strcasecmp scheme ''local'' = 0 then
                      (case url of
                         None \<Rightarrow> Returned \<lparr>l_genicam = None, l_size = 0, l_error = r_error r,
                                           l_io = r_io r, l_wire = r_wire r, l_critical = []\<rparr>
                       | Some u \<Rightarrow> load_local P H (r_io r) (r_wire r) (r_error r) u)
                    else if g_ascii_strcasecmp scheme ''http'' \<noteq> 0 then
                      (let genicam = (case g_file_read_uri H filename of None \<Rightarrow> None
                                      | Some body \<Rightarrow> body)
                       in Returned \<lparr>l_genicam = genicam, l_size = size_of_contents genicam,
                                    l_error = r_error r, l_io = r_io r, l_wire = r_wire r,
                                    l_critical = []\<rparr>)
                    else
                      Returned \<lparr>l_genicam = None, l_size = 0, l_error = r_error r,
                                l_io = r_io r, l_wire = r_wire r, l_critical = [filename]\<rparr>))
         | Aborted \<Rightarrow> Aborted
         | Starved \<Rightarrow> Starved))"

record ArvGvDevicePrivate =
  io_data :: ArvGvDeviceIOData
  genicam_xml :: "8 word list option"
  genicam_xml_size :: nat

record xml_result =
  x_xml :: "8 word list option"
  x_size :: nat
  x_error :: gerror_ptr
  x_priv :: ArvGvDevicePrivate
  x_wire :: wire
  x_critical :: "8 word list list"

definition g_propagate_error :: "gerror_ptr \<Rightarrow> ArvDeviceError \<Rightarrow> gerror_ptr" where
  "g_propagate_error dest src =
     (case dest of None \<Rightarrow> None | Some None \<Rightarrow> Some (Some src) | Some (Some e) \<Rightarrow> Some (Some e))"

text \<open>
  The end of \<^verbatim>\<open>_get_genicam_xml\<close>, once \<^verbatim>\<open>xml\<close>, \<^verbatim>\<open>*size\<close> and \<^verbatim>\<open>local_error\<close> are
  known (\<open>crit\<close> are the critical messages of an earlier load).
\<close>

definition finish_genicam_xml ::
  "ArvGvDevicePrivate \<Rightarrow> gerror_ptr \<Rightarrow> 8 word list list \<Rightarrow> load_result \<Rightarrow> xml_result" where
  "finish_genicam_xml priv error crit l =
     (case l_error l of
        Some (Some e) \<Rightarrow>
          \<lparr>x_xml = None, x_size = l_size l, x_error = g_propagate_error error e,
           x_priv = priv\<lparr>io_data := l_io l\<rparr>, x_wire = l_wire l,
           x_critical = crit @ l_critical l\<rparr>
      | _ \<Rightarrow>
          \<lparr>x_xml = l_genicam l, x_size = l_size l, x_error = error,
           x_priv = priv\<lparr>io_data := l_io l, genicam_xml := l_genicam l,
                         genicam_xml_size := l_size l\<rparr>,
           x_wire = l_wire l, x_critical = crit @ l_critical l\<rparr>)"

definition get_genicam_xml ::
  "gvcp_params \<Rightarrow> gvbs_params \<Rightarrow> host_env \<Rightarrow> ArvGvDevicePrivate \<Rightarrow> wire \<Rightarrow> gerror_ptr
     \<Rightarrow> xml_result outcome" where
  "get_genicam_xml P B H priv w error =
     (case genicam_xml priv of
        Some xml \<Rightarrow>
          Returned \<lparr>x_xml = Some xml, x_size = genicam_xml_size priv, x_error = error,
                    x_priv = priv, x_wire = w, x_critical = []\<rparr>
      | None \<Rightarrow>
          (case load_genicam P B H (io_data priv) w (ARV_GVBS_XML_URL_0_OFFSET B) (Some None) of
             Returned l0 \<Rightarrow>
               (if l_genicam l0 = None \<and> l_error l0 = Some None then
                  (case load_genicam P B H (l_io l0) (l_wire l0) (ARV_GVBS_XML_URL_1_OFFSET B)
                          (l_error l0) of
                     Returned l1 \<Rightarrow> Returned (finish_genicam_xml priv error (l_critical l0) l1)
                   | Aborted \<Rightarrow> Aborted
                   | Starved \<Rightarrow> Starved)
                else Returned (finish_genicam_xml priv error [] l0))
           | Aborted \<Rightarrow> Aborted
           | Starved \<Rightarrow> Starved))"

text \<open>A request for the address \<open>a\<close> was traced.\<close>

fun is_request_at :: "nat \<Rightarrow> trace_event \<Rightarrow> bool" where
  "is_request_at a (TraceCmd c a' s i) = (a' = a)"
| "is_request_at a (TraceAck t f c i) = False"

definition requested_at :: "nat \<Rightarrow> wire \<Rightarrow> bool" where
  "requested_at a w = list_ex (is_request_at a) (trace w)"

definition example_host :: host_env where
  "example_host =
     \<lparr>arv_parse_genicam_url =
        (\<lambda>f. Some \<lparr>url_scheme = ''HTTP'', url_path = ''camera/features.xml'',
                    url_file_address = 0, url_file_size = 0\<rparr>),
      g_file_get_contents = (\<lambda>p. None),
      g_file_read_uri = (\<lambda>f. Some (Some [60, 62])),
      arv_zip_first_file = (\<lambda>bs n. None),
      uninitialised = (\<lambda>n. replicate n 0)\<rparr>"

definition example_priv :: ArvGvDevicePrivate where
  "example_priv = \<lparr>io_data = example_io, genicam_xml = None, genicam_xml_size = 0\<rparr>"

definition example_url_exchange :: "16 word \<Rightarrow> attempt list" where
  "example_url_exchange i =
     [\<lparr>send_ok = True, sent_at_ms = 0,
       rounds = [\<lparr>now_ms = 1, poll_ready = True,
                  received = Datagram 524 (example_packet ARV_GVCP_PACKET_TYPE_ACK 0
                                             ARV_GVCP_COMMAND_READ_MEMORY_ACK i),
                  now_pending_ms = 1\<rparr>]\<rparr>]"

definition example_failed_send :: attempt where
  "example_failed_send = \<lparr>send_ok = False, sent_at_ms = 0, rounds = []\<rparr>"

definition example_timeout_wire :: wire where
  "example_timeout_wire =
     \<lparr>script = [[example_failed_send, example_failed_send, example_failed_send,
                  example_failed_send, example_failed_send, example_failed_send]],
      trace = []\<rparr>"

definition example_timeout_trace :: "trace_event list" where
  "example_timeout_trace =
     [TraceCmd ARV_GVCP_COMMAND_READ_MEMORY_CMD 512 512 65301,
      TraceCmd ARV_GVCP_COMMAND_READ_MEMORY_CMD 512 512 65301,
      TraceCmd ARV_GVCP_COMMAND_READ_MEMORY_CMD 512 512 65301,
      TraceCmd ARV_GVCP_COMMAND_READ_MEMORY_CMD 512 512 65301,
      TraceCmd ARV_GVCP_COMMAND_READ_MEMORY_CMD 512 512 65301,
      TraceCmd ARV_GVCP_COMMAND_READ_MEMORY_CMD 512 512 65301]"

subsection \<open>Packet size probe: \<^verbatim>\<open>test_packet_check\<close> and \<^verbatim>\<open>auto_packet_size\<close>\<close>

text \<open>Stream protocol constants (arvgvspprivate.h, not in the sources).\<close>

record gvsp_params =
  ARV_GVSP_MINIMUM_PACKET_SIZE :: int
  ARV_GVSP_MAXIMUM_PACKET_SIZE :: int
  ARV_GVSP_PACKET_UDP_OVERHEAD :: int

text \<open>A \<^verbatim>\<open>gint64\<close> stored in a \<^verbatim>\<open>guint\<close>.\<close>

definition to_guint :: "int \<Rightarrow> nat" where
  "to_guint x = nat (x mod 2 ^ 32)"

text \<open>
  The features of the device are reached through the schema evaluator, which is outside
  this file. The environment of the probe gives what the device answers: the kind of the
  \<^verbatim>\<open>GevSCPSFireTestPacket\<close> node, the increment, value and bounds of
  \<^verbatim>\<open>GevSCPSPacketSize\<close>, the answer to the read of the value in the two early returns,
  the value of \<^verbatim>\<open>GevSCPSDoNotFragment\<close>, and then, for each call of
  \<^verbatim>\<open>test_packet_check\<close>, what the polls of the test socket return (the number of
  events and, when there is one, the size that \<^verbatim>\<open>g_socket_receive\<close> returns as a
  \<^verbatim>\<open>size_t\<close>). Each iteration of the bisection also reads the packet size back.
\<close>

datatype fire_node = NoFireTestPacket | FireCommand | FireBoolean

datatype feature_write =
  ExecuteFireTestPacket
| SetFireTestPacket bool
| SetPacketSize int
| SetDoNotFragment bool
| SetGevSCDA "32 word"
| SetGevSCPHostPort "16 word"

record probe_round =
  readback :: int
  readback_error :: "ArvDeviceError option"
  polls :: "(int \<times> nat) list"

record probe_env =
  fire_test_packet :: fire_node
  feature_increment :: int
  feature_value :: int
  feature_minimum :: int
  feature_maximum :: int
  feature_value_now :: "int \<times> ArvDeviceError option"
  interface_address :: "32 word"
  local_port :: "16 word"
  do_not_fragment :: bool
  first_polls :: "(int \<times> nat) list"
  probe_rounds :: "probe_round list"
  final_write_error :: "ArvDeviceError option"

text \<open>
  The inner loop of \<^verbatim>\<open>test_packet_check\<close>: poll for 10 ms and receive, until nothing
  arrives or a datagram of the expected size does. It returns the last \<^verbatim>\<open>n_events\<close>.
\<close>

fun wait_test_packet :: "nat \<Rightarrow> (int \<times> nat) list \<Rightarrow> (int \<times> (int \<times> nat) list) outcome" where
  "wait_test_packet expected [] = Starved"
| "wait_test_packet expected ((n_events, received_count) # es) =
     (let read_count = (if n_events \<noteq> 0 then received_count else 0) in
      if n_events \<noteq> 0 \<and> read_count \<noteq> expected
      then wait_test_packet expected es
      else Returned (n_events, es))"

definition fire :: "bool \<Rightarrow> feature_write list" where
  "fire is_command =
     (if is_command then [ExecuteFireTestPacket]
      else [SetFireTestPacket False, SetFireTestPacket True])"

function test_packet_loop ::
  "bool \<Rightarrow> nat \<Rightarrow> nat \<Rightarrow> (int \<times> nat) list \<Rightarrow> feature_write list
     \<Rightarrow> (bool \<times> feature_write list) outcome" where
  "test_packet_loop is_command expected n_tries es writes =
     (case wait_test_packet expected es of
        Returned (n_events, es') \<Rightarrow>
          if n_events = 0 \<and> n_tries + 1 < 3
          then test_packet_loop is_command expected (n_tries + 1) es' (writes @ fire is_command)
          else Returned (n_events \<noteq> 0, writes @ fire is_command)
      | Aborted \<Rightarrow> Aborted
      | Starved \<Rightarrow> Starved)"
  by pat_completeness auto
termination
  by (relation "measure (\<lambda>(is_command, expected, n_tries, es, writes). 3 - n_tries)") auto

declare test_packet_loop.simps [simp del]

text \<open>
  \<^verbatim>\<open>read_count != (packet_size - ARV_GVSP_PACKET_UDP_OVERHEAD)\<close>: the difference is
  computed on \<^verbatim>\<open>guint\<close>.
\<close>

definition test_packet_check ::
  "gvsp_params \<Rightarrow> bool \<Rightarrow> nat \<Rightarrow> (int \<times> nat) list \<Rightarrow> (bool \<times> feature_write list) outcome" where
  "test_packet_check G is_command packet_size es =
     test_packet_loop is_command
       (to_guint (int packet_size - ARV_GVSP_PACKET_UDP_OVERHEAD G)) 0 es []"

record bisect_state =
  b_min_size :: nat
  b_max_size :: nat
  b_current_size :: nat
  b_last_size :: nat
  b_packet_size :: int
  b_local_error :: "ArvDeviceError option"
  b_writes :: "feature_write list"
  b_accepted :: "nat list"
  b_readbacks :: "(nat \<times> int) list"

text \<open>
  \<^verbatim>\<open>current_size = min_size + (((max_size - min_size) / 2 + 1) / inc) * inc\<close>, on
  \<^verbatim>\<open>guint\<close>.
\<close>

definition next_size :: "nat \<Rightarrow> nat \<Rightarrow> nat \<Rightarrow> nat" where
  "next_size inc min_size max_size =
     (min_size +
      ((((nat ((int max_size - int min_size) mod 2 ^ 32) div 2 + 1) mod 2 ^ 32) div inc) * inc)
         mod 2 ^ 32) mod 2 ^ 32"

definition first_error :: "ArvDeviceError option \<Rightarrow> ArvDeviceError option \<Rightarrow> ArvDeviceError option" where
  "first_error local_error e = (case local_error of None \<Rightarrow> e | Some x \<Rightarrow> Some x)"

text \<open>
  The \<^verbatim>\<open>do ... while (TRUE)\<close> of the bisection, and the assignments of its body.
  \<open>b_accepted\<close> lists the sizes assigned to \<^verbatim>\<open>packet_size\<close> after a successful test, in
  order; \<open>b_readbacks\<close> lists, for each iteration, the size written to the device and the
  value read back.
\<close>

definition bisect_done :: "nat \<Rightarrow> bisect_state \<Rightarrow> bool" where
  "bisect_done inc st =
     (b_current_size st = b_last_size st \<or>
      b_max_size st \<le> (b_min_size st + inc) mod 2 ^ 32)"

text \<open>The size is written, read back into \<^verbatim>\<open>current_size\<close> and \<^verbatim>\<open>last_size\<close>, and tested.\<close>

definition tried :: "bisect_state \<Rightarrow> probe_round \<Rightarrow> feature_write list \<Rightarrow> bisect_state" where
  "tried st r fired =
     st\<lparr>b_writes := b_writes st @ [SetPacketSize (int (b_current_size st))] @ fired,
        b_local_error := first_error (b_local_error st) (readback_error r),
        b_current_size := to_guint (readback r),
        b_last_size := to_guint (readback r),
        b_readbacks := b_readbacks st @ [(b_current_size st, readback r)]\<rparr>"

definition accepted :: "bisect_state \<Rightarrow> bisect_state" where
  "accepted st =
     st\<lparr>b_packet_size := int (b_current_size st),
        b_accepted := b_accepted st @ [b_current_size st]\<rparr>"

definition raise_floor :: "nat \<Rightarrow> bisect_state \<Rightarrow> bisect_state" where
  "raise_floor inc st =
     st\<lparr>b_min_size := b_current_size st,
        b_current_size := next_size inc (b_current_size st) (b_max_size st)\<rparr>"

definition lower_ceiling :: "nat \<Rightarrow> bisect_state \<Rightarrow> bisect_state" where
  "lower_ceiling inc st =
     st\<lparr>b_max_size := b_current_size st,
        b_current_size := next_size inc (b_min_size st) (b_current_size st)\<rparr>"

fun bisect ::
  "gvsp_params \<Rightarrow> bool \<Rightarrow> nat \<Rightarrow> bisect_state \<Rightarrow> probe_round list \<Rightarrow> bisect_state outcome" where
  "bisect G is_command inc st [] = (if bisect_done inc st then Returned st else Starved)"
| "bisect G is_command inc st (r # rs) =
     (if bisect_done inc st then Returned st
      else
        (case test_packet_check G is_command (to_guint (readback r)) (polls r) of
           Returned (success, fired) \<Rightarrow>
             (if success then
                (if b_current_size (tried st r fired) = b_max_size (tried st r fired)
                 then Returned (accepted (tried st r fired))
                 else bisect G is_command inc (raise_floor inc (accepted (tried st r fired))) rs)
              else bisect G is_command inc (lower_ceiling inc (tried st r fired)) rs)
         | Aborted \<Rightarrow> Aborted
         | Starved \<Rightarrow> Starved))"

record probe_result =
  p_return :: nat
  p_error :: gerror_ptr
  p_writes :: "feature_write list"
  p_accepted :: "nat list"
  p_readbacks :: "(nat \<times> int) list"

definition set_error :: "gerror_ptr \<Rightarrow> ArvDeviceError option \<Rightarrow> gerror_ptr" where
  "set_error error e = (case e of None \<Rightarrow> error | Some x \<Rightarrow> g_propagate_error error x)"



text \<open>The working increment and bounds, as the \<^verbatim>\<open>guint\<close> variables hold them.\<close>

definition probe_inc :: "probe_env \<Rightarrow> nat" where
  "probe_inc E = (if to_guint (feature_increment E) < 1 then 1 else to_guint (feature_increment E))"

definition probe_max_size :: "gvsp_params \<Rightarrow> probe_env \<Rightarrow> nat" where
  "probe_max_size G E = to_guint (min (ARV_GVSP_MAXIMUM_PACKET_SIZE G) (feature_maximum E))"

definition probe_min_size :: "gvsp_params \<Rightarrow> probe_env \<Rightarrow> nat" where
  "probe_min_size G E = to_guint (max (ARV_GVSP_MINIMUM_PACKET_SIZE G) (feature_minimum E))"

definition auto_packet_size ::
  "gvsp_params \<Rightarrow> probe_env \<Rightarrow> bool \<Rightarrow> gerror_ptr \<Rightarrow> probe_result outcome" where
  "auto_packet_size G E exit_early error =
     (if fire_test_packet E = NoFireTestPacket then
        Returned \<lparr>p_return = to_guint (fst (feature_value_now E)),
                  p_error = set_error error (snd (feature_value_now E)),
                  p_writes = [], p_accepted = [], p_readbacks = []\<rparr>
      else
        (let inc = probe_inc E;
             packet_size = feature_value E;
             max_size = probe_max_size G E;
             min_size = probe_min_size G E
         in if max_size < min_size \<or>
               nat ((int max_size - int min_size) mod 2 ^ 32) < inc then
              Returned \<lparr>p_return = to_guint (fst (feature_value_now E)),
                        p_error = set_error error (snd (feature_value_now E)),
                        p_writes = [], p_accepted = [], p_readbacks = []\<rparr>
            else
              (let is_command = (fire_test_packet E = FireCommand);
                   setup = [SetGevSCDA (interface_address E), SetGevSCPHostPort (local_port E),
                            SetDoNotFragment True]
               in case test_packet_check G is_command (to_guint packet_size) (first_polls E) of
                    Returned (success, fired) \<Rightarrow>
                      (if success \<and> exit_early then
                         Returned \<lparr>p_return = to_guint packet_size, p_error = error,
                                   p_writes = setup @ fired @
                                              [SetDoNotFragment (do_not_fragment E)],
                                   p_accepted = [], p_readbacks = []\<rparr>
                       else
                         (case bisect G is_command inc
                                 \<lparr>b_min_size = min_size, b_max_size = max_size,
                                  b_current_size = to_guint packet_size, b_last_size = 0,
                                  b_packet_size = packet_size, b_local_error = None,
                                  b_writes = setup @ fired, b_accepted = [],
                                  b_readbacks = []\<rparr>
                                 (probe_rounds E) of
                            Returned st \<Rightarrow>
                              (case b_local_error st of
                                 None \<Rightarrow>
                                   Returned
                                     \<lparr>p_return = to_guint (b_packet_size st),
                                      p_error = set_error error (final_write_error E),
                                      p_writes = b_writes st @
                                                 [SetPacketSize (b_packet_size st),
                                                  SetDoNotFragment (do_not_fragment E)],
                                      p_accepted = b_accepted st,
                                      p_readbacks = b_readbacks st\<rparr>
                               | Some e \<Rightarrow>
                                   Returned
                                     \<lparr>p_return = to_guint (b_packet_size st),
                                      p_error = g_propagate_error error e,
                                      p_writes = b_writes st @
                                                 [SetDoNotFragment (do_not_fragment E)],
                                      p_accepted = b_accepted st,
                                      p_readbacks = b_readbacks st\<rparr>)
                          | Aborted \<Rightarrow> Aborted
                          | Starved \<Rightarrow> Starved))
                  | Aborted \<Rightarrow> Aborted
                  | Starved \<Rightarrow> Starved)))"



definition example_gvsp :: gvsp_params where
  "example_gvsp =
     \<lparr>ARV_GVSP_MINIMUM_PACKET_SIZE = 46, ARV_GVSP_MAXIMUM_PACKET_SIZE = 65536,
      ARV_GVSP_PACKET_UDP_OVERHEAD = 28\<rparr>"

definition example_probe :: "int \<Rightarrow> int \<Rightarrow> int \<Rightarrow> int \<Rightarrow> probe_round list \<Rightarrow> probe_env" where
  "example_probe lo hi increment val rs =
     \<lparr>fire_test_packet = FireCommand, feature_increment = increment, feature_value = val,
      feature_minimum = lo, feature_maximum = hi, feature_value_now = (val, None),
      interface_address = 3232235777, local_port = 50000, do_not_fragment = False,
      first_polls = [(0, 0), (0, 0), (0, 0)], probe_rounds = rs,
      final_write_error = None\<rparr>"

text \<open>A round in which the device reads back \<open>v\<close> and no test packet arrives.\<close>

definition lost_round :: "int \<Rightarrow> probe_round" where
  "lost_round v = \<lparr>readback = v, readback_error = None, polls = [(0, 0), (0, 0), (0, 0)]\<rparr>"

text \<open>A round in which the device reads back \<open>v\<close> and the test packet arrives at once.\<close>

definition delivered_round :: "int \<Rightarrow> probe_round" where
  "delivered_round v = \<lparr>readback = v, readback_error = None, polls = [(1, nat (v - 28))]\<rparr>"

text \<open>
  A device that reports a maximum of -1 for its packet size: configured with 580, it reads
  576 back when 580 is written and delivers the test packet, then reads 584 back and
  delivers nothing.
\<close>

definition example_negative_probe :: probe_env where
  "example_negative_probe =
     example_probe 576 (- 1) 8 580 [delivered_round 576, lost_round 584]"

section \<open>Properties of the control channel\<close>

subsection \<open>What an exchange adds to the trace\<close>

lemma error_ack_received_append [simp]:
  "error_ack_received e pid (xs @ ys) = (error_ack_received e pid xs \<or> error_ack_received e pid ys)"
  by (simp add: error_ack_received_def list_ex_iff) blast

lemma error_ack_received_Nil [simp]: "\<not> error_ack_received e pid []"
  by (simp add: error_ack_received_def)

lemma receive_iteration_Continue:
  assumes "receive_iteration P e pid a st r = Continue st'" and "e \<noteq> ARV_GVCP_COMMAND_PENDING_ACK"
  shows "x_command_error st' = x_command_error st \<and> x_n_retries st' = x_n_retries st \<and>
         (\<exists>new. x_trace st' = x_trace st @ new \<and> \<not> error_ack_received e pid new)"
  using assms
  by (auto simp: receive_iteration_def Let_def trace_ack_def error_ack_received_def
           split: if_splits)

lemma receive_iteration_Done:
  assumes "receive_iteration P e pid a st r = Done ok st'"
  shows "x_n_retries st' = x_n_retries st \<and>
         (\<exists>new. x_trace st' = x_trace st @ new \<and>
            (error_ack_received e pid new \<longrightarrow> ok) \<and>
            (\<not> error_ack_received e pid new \<longrightarrow> x_command_error st' = x_command_error st))"
  using assms
  by (auto simp: receive_iteration_def Let_def trace_ack_def error_ack_received_def
           split: if_splits)

lemma receive_loop_trace:
  assumes "receive_loop P e pid a st rs = Returned (ok, st')" and "e \<noteq> ARV_GVCP_COMMAND_PENDING_ACK"
  shows "x_n_retries st' = x_n_retries st \<and>
         (\<exists>new. x_trace st' = x_trace st @ new \<and>
            (error_ack_received e pid new \<longrightarrow> ok) \<and>
            (\<not> error_ack_received e pid new \<longrightarrow> x_command_error st' = x_command_error st))"
  using assms
proof (induction rs arbitrary: st)
  case Nil
  then show ?case by simp
next
  case (Cons r rs)
  show ?case
  proof (cases "receive_iteration P e pid a st r")
    case (Continue st1)
    from Continue Cons.prems have run: "receive_loop P e pid a st1 rs = Returned (ok, st')"
      by simp
    from receive_iteration_Continue [OF Continue Cons.prems(2)]
    obtain new1 where s1: "x_command_error st1 = x_command_error st"
      "x_n_retries st1 = x_n_retries st" "x_trace st1 = x_trace st @ new1"
      "\<not> error_ack_received e pid new1" by blast
    from Cons.IH [OF run Cons.prems(2)]
    obtain new2 where s2: "x_n_retries st' = x_n_retries st1" "x_trace st' = x_trace st1 @ new2"
      "error_ack_received e pid new2 \<longrightarrow> ok"
      "\<not> error_ack_received e pid new2 \<longrightarrow> x_command_error st' = x_command_error st1" by blast
    have "x_trace st' = x_trace st @ (new1 @ new2)" using s1 s2 by simp
    moreover have "error_ack_received e pid (new1 @ new2) \<longrightarrow> ok" using s1 s2 by simp
    moreover have "\<not> error_ack_received e pid (new1 @ new2) \<longrightarrow> x_command_error st' = x_command_error st"
      using s1 s2 by simp
    ultimately show ?thesis using s1 s2 by metis
  next
    case (Done ok1 st1)
    with Cons.prems have "ok1 = ok" "st1 = st'" by simp_all
    with Done receive_iteration_Done [of P e pid a st r ok st'] show ?thesis by simp
  qed
qed

lemma attempt_loop_trace:
  assumes "attempt_loop P io command address sz e pid a st buf ts = Returned (ok, st', buf')"
      and "e \<noteq> ARV_GVCP_COMMAND_PENDING_ACK"
  shows "\<exists>new. x_trace st' = x_trace st @ new \<and>
            (error_ack_received e pid new \<longrightarrow> ok) \<and>
            (\<not> error_ack_received e pid new \<longrightarrow> x_command_error st' = x_command_error st)"
  using assms
proof (induction ts arbitrary: st buf)
  case Nil
  then show ?case by simp
next
  case (Cons t ts)
  let ?cmd = "TraceCmd command address sz pid"
  let ?st1 = "st\<lparr>x_trace := x_trace st @ [?cmd]\<rparr>"
  have nocmd: "\<not> error_ack_received e pid [?cmd]"
    by (simp add: error_ack_received_def)
  show ?case
  proof (cases "send_ok t")
    case False
    let ?st3 = "?st1\<lparr>x_n_retries := x_n_retries ?st1 + 1\<rparr>"
    show ?thesis
    proof (cases "x_n_retries ?st3 < gvcp_n_retries io")
      case True
      with False Cons.prems
      have run: "attempt_loop P io command address sz e pid a ?st3 buf ts = Returned (ok, st', buf')"
        by (simp add: Let_def)
      from Cons.IH [OF run Cons.prems(2)]
      obtain new where n: "x_trace st' = x_trace ?st3 @ new" "error_ack_received e pid new \<longrightarrow> ok"
        "\<not> error_ack_received e pid new \<longrightarrow> x_command_error st' = x_command_error ?st3" by blast
      have t: "x_trace st' = x_trace st @ (?cmd # new)" using n by simp
      have e: "error_ack_received e pid (?cmd # new) = error_ack_received e pid new"
        by (simp add: error_ack_received_def)
      have c: "\<not> error_ack_received e pid new \<longrightarrow> x_command_error st' = x_command_error st"
        using n by simp
      show ?thesis
        by (rule exI [of _ "?cmd # new"]) (use t e c n(2) in simp)
    next
      case nomore: False
      with False Cons.prems have "st' = ?st3" "ok = False" by (simp_all add: Let_def)
      then have "x_trace st' = x_trace st @ [?cmd]" "x_command_error st' = x_command_error st"
        by simp_all
      with nocmd show ?thesis by simp
    qed
  next
    case True
    let ?st1' = "?st1\<lparr>x_timeout_stop_ms := sent_at_ms t + int (gvcp_timeout_ms io)\<rparr>"
    from True Cons.prems obtain success st2
      where rx: "receive_loop P e pid a ?st1' (rounds t) = Returned (success, st2)"
      by (auto simp: Let_def split: outcome.splits)
    from receive_loop_trace [OF rx Cons.prems(2)]
    obtain new1 where n1: "x_trace st2 = x_trace ?st1' @ new1"
      "error_ack_received e pid new1 \<longrightarrow> success"
      "\<not> error_ack_received e pid new1 \<longrightarrow> x_command_error st2 = x_command_error ?st1'" by blast
    let ?buf' = "if success \<and> x_command_error st2 = ARV_GVCP_ERROR_NONE P
                 then store_ack command buf (x_buffer st2) sz else buf"
    let ?st3 = "st2\<lparr>x_n_retries := x_n_retries st2 + 1\<rparr>"
    show ?thesis
    proof (cases "\<not> success \<and> x_n_retries ?st3 < gvcp_n_retries io")
      case again: True
      with True rx Cons.prems
      have run: "attempt_loop P io command address sz e pid a ?st3 ?buf' ts = Returned (ok, st', buf')"
        by (simp add: Let_def)
      from Cons.IH [OF run Cons.prems(2)]
      obtain new2 where n2: "x_trace st' = x_trace ?st3 @ new2" "error_ack_received e pid new2 \<longrightarrow> ok"
        "\<not> error_ack_received e pid new2 \<longrightarrow> x_command_error st' = x_command_error ?st3" by blast
      from again n1 have no1: "\<not> error_ack_received e pid new1" by blast
      have t: "x_trace st' = x_trace st @ (?cmd # new1 @ new2)" using n1 n2 by simp
      have e: "error_ack_received e pid (?cmd # new1 @ new2) = error_ack_received e pid new2"
        using no1 nocmd error_ack_received_append [of e pid "[?cmd]" "new1 @ new2"] by simp
      have c: "\<not> error_ack_received e pid new2 \<longrightarrow> x_command_error st' = x_command_error st"
        using n2 n1 no1 by simp
      show ?thesis
        by (rule exI [of _ "?cmd # new1 @ new2"]) (use t e c n2(2) in simp)
    next
      case stop: False
      with True rx Cons.prems have fin: "st' = ?st3" "ok = success"
        by (auto simp add: Let_def split: if_splits)
      have t: "x_trace st' = x_trace st @ (?cmd # new1)" using fin n1 by simp
      have e: "error_ack_received e pid (?cmd # new1) = error_ack_received e pid new1"
        using nocmd error_ack_received_append [of e pid "[?cmd]" new1] by simp
      have c: "\<not> error_ack_received e pid new1 \<longrightarrow> x_command_error st' = x_command_error st"
        using n1 fin by simp
      show ?thesis
        by (rule exI [of _ "?cmd # new1"]) (use t e c n1(2) fin in simp)
    qed
  qed
qed


lemma expected_ack_not_pending:
  "expected_ack P command sz = Some (e, a) \<Longrightarrow> e \<noteq> ARV_GVCP_COMMAND_PENDING_ACK"
  by (cases command) auto

lemma receive_loop_resolved:
  assumes "receive_loop P e pid a st rs = Returned (True, st')"
  shows "get_command (x_buffer st') = e \<and> get_packet_id (x_buffer st') = pid"
  using assms
proof (induction rs arbitrary: st)
  case Nil
  then show ?case by simp
next
  case (Cons r rs)
  show ?case
  proof (cases "receive_iteration P e pid a st r")
    case (Continue st1)
    with Cons show ?thesis by simp
  next
    case (Done ok1 st1)
    with Cons.prems have d: "receive_iteration P e pid a st r = Done True st'" by simp
    then show ?thesis
      by (auto simp: receive_iteration_def Let_def split: if_splits)
  qed
qed

lemmas example_defs = example_params_def example_packet_def example_io_def example_round_def
  example_state_def

subsection \<open>Failed exchanges\<close>



subsection \<open>Pending acks\<close>

text \<open>
  C4: when the receive loop reads a datagram whose command is the pending ack and whose
  size is at least the pending-ack size, it goes on with the next iteration, with the
  deadline set to the clock read at that moment plus the timeout field of the frame; the
  retry counter is the same and the only entry added to the trace is the examined frame,
  so nothing is retransmitted. (The pending ack contains the header, hence the first
  hypothesis on the two sizes.)
\<close>

theorem pending_ack_resets_deadline_without_retry:
  assumes "sizeof_ArvGvcpHeader P \<le> get_pending_ack_size P"
      and "poll_ready r" and "received r = Datagram n v"
      and "get_command v = ARV_GVCP_COMMAND_PENDING_ACK"
      and "get_pending_ack_size P \<le> n"
  shows "receive_loop P e pid a st (r # rs) =
           receive_loop P e pid a
             (st\<lparr>x_buffer := v, x_trace := x_trace st @ [trace_ack v],
                 x_timeout_stop_ms := now_pending_ms r + get_pending_ack_timeout v\<rparr>) rs \<and>
         x_n_retries (st\<lparr>x_buffer := v, x_trace := x_trace st @ [trace_ack v],
                 x_timeout_stop_ms := now_pending_ms r + get_pending_ack_timeout v\<rparr>) = x_n_retries st"
  using assms by (simp add: receive_iteration_def Let_def size_t_ge_def)

theorem pending_ack_witness:
  "sizeof_ArvGvcpHeader example_params \<le> get_pending_ack_size example_params \<and>
   get_pending_ack_size example_params \<le> 12 \<and>
   (\<exists>st'. receive_loop example_params ARV_GVCP_COMMAND_READ_REGISTER_ACK 65301 12 example_state
      [example_round 100 (example_packet ARV_GVCP_PACKET_TYPE_ACK 0 ARV_GVCP_COMMAND_PENDING_ACK 65301),
       example_round 1600 (example_packet ARV_GVCP_PACKET_TYPE_ACK 0
                             ARV_GVCP_COMMAND_READ_REGISTER_ACK 65301)] = Returned (True, st') \<and>
      x_timeout_stop_ms st' = 2100 \<and> x_n_retries st' = 0)"
  using pending_ack_resets_deadline_without_retry
    [of example_params
        "example_round 100 (example_packet ARV_GVCP_PACKET_TYPE_ACK 0 ARV_GVCP_COMMAND_PENDING_ACK 65301)"
        12 "example_packet ARV_GVCP_PACKET_TYPE_ACK 0 ARV_GVCP_COMMAND_PENDING_ACK 65301"
        ARV_GVCP_COMMAND_READ_REGISTER_ACK 65301 12 example_state
        "[example_round 1600 (example_packet ARV_GVCP_PACKET_TYPE_ACK 0
                             ARV_GVCP_COMMAND_READ_REGISTER_ACK 65301)]"]
  by (simp add: example_defs receive_iteration_def size_t_ge_def to_gint_def Let_def)

subsection \<open>Ack matching\<close>

text \<open>
  C5 does not hold of the code. A normal ack that carries the expected command and the
  identifier of the request, holds a full header, but is shorter than the expected ack
  size, is ignored by the iteration that receives it, and the loop goes on while time
  remains. When the socket is ready in the next iteration and \<^verbatim>\<open>g_socket_receive\<close>
  fails, the call returns -1 into \<^verbatim>\<open>int count\<close>; each comparison of \<^verbatim>\<open>count\<close> with a
  size converts it to \<^verbatim>\<open>size_t\<close>, so every size test passes, and the truncated frame
  still in the scratch buffer is examined again and resolves the exchange.
\<close>

theorem truncated_ack_resolves_exchange_after_failed_receive:
  assumes first: "poll_ready r1" "received r1 = Datagram n v"
      and header: "sizeof_ArvGvcpHeader P \<le> n"
      and truncated: "n < a"
      and ack: "get_packet_type v = ARV_GVCP_PACKET_TYPE_ACK" "get_command v = e"
               "get_packet_id v = pid"
      and not_pending: "e \<noteq> ARV_GVCP_COMMAND_PENDING_ACK"
      and time: "0 < to_gint (x_timeout_stop_ms st - now_ms r1)"
      and second: "poll_ready r2" "received r2 = RecvError"
  shows "\<not> ack_matches e pid a n v \<and>
         receive_iteration P e pid a st r1 =
           Continue (st\<lparr>x_buffer := v, x_trace := x_trace st @ [trace_ack v]\<rparr>) \<and>
         receive_loop P e pid a st (r1 # r2 # rs) =
           Returned (True, st\<lparr>x_buffer := v, x_trace := x_trace st @ [trace_ack v, trace_ack v]\<rparr>)"
proof -
  let ?st1 = "st\<lparr>x_buffer := v, x_trace := x_trace st @ [trace_ack v]\<rparr>"
  have no: "\<not> ack_matches e pid a n v"
    using truncated ack by (simp add: ack_matches_def)
  have one: "receive_iteration P e pid a st r1 = Continue ?st1"
    using first header truncated ack not_pending time
    by (simp add: receive_iteration_def Let_def size_t_ge_def)
  have two: "receive_iteration P e pid a ?st1 r2 =
               Done True (st\<lparr>x_buffer := v, x_trace := x_trace st @ [trace_ack v, trace_ack v]\<rparr>)"
    using second ack not_pending
    by (simp add: receive_iteration_def Let_def size_t_ge_def)
  from no one two show ?thesis by simp
qed

lemma example_truncated_exchange:
  "send_cmd_and_receive_ack example_params example_io
     \<lparr>script = [[\<lparr>send_ok = True, sent_at_ms = 0,
                   rounds = [example_truncated_round, example_failed_receive]\<rparr>]],
      trace = []\<rparr>
     ARV_GVCP_COMMAND_READ_REGISTER_CMD 2560 4 (Word32 5) (Some None) =
   Returned
     \<lparr>r_success = True, r_buffer = Word32 77, r_error = Some None,
      r_io = example_io\<lparr>packet_id := 65301, buffer := example_truncated_ack\<rparr>,
      r_wire = \<lparr>script = [],
                trace = [TraceCmd ARV_GVCP_COMMAND_READ_REGISTER_CMD 2560 4 65301,
                         trace_ack example_truncated_ack, trace_ack example_truncated_ack]\<rparr>\<rparr>"
  by (simp add: send_cmd_and_receive_ack_def example_defs arv_gvcp_next_packet_id_def
        receive_iteration_def size_t_ge_def to_gint_def Let_def example_truncated_ack_def
        example_truncated_round_def example_failed_receive_def)

text \<open>
  At the example values: a read-register ack of 8 bytes, where 12 are expected, followed by
  a failed receive. The receive loop ends with success, and the exchange reports success
  and stores in the caller's value the four bytes that follow the header in the scratch
  buffer, which the datagram did not carry.
\<close>

theorem truncated_ack_witness:
  "sizeof_ArvGvcpHeader example_params \<le> 8 \<and>
   8 < get_read_register_ack_size example_params \<and>
   \<not> ack_matches ARV_GVCP_COMMAND_READ_REGISTER_ACK 65301
       (get_read_register_ack_size example_params) 8 example_truncated_ack \<and>
   receive_loop example_params ARV_GVCP_COMMAND_READ_REGISTER_ACK 65301
     (get_read_register_ack_size example_params) example_state
     [example_truncated_round, example_failed_receive] =
     Returned (True, example_state\<lparr>x_buffer := example_truncated_ack,
                 x_trace := [trace_ack example_truncated_ack, trace_ack example_truncated_ack]\<rparr>) \<and>
   send_cmd_and_receive_ack example_params example_io
     \<lparr>script = [[\<lparr>send_ok = True, sent_at_ms = 0,
                   rounds = [example_truncated_round, example_failed_receive]\<rparr>]],
      trace = []\<rparr>
     ARV_GVCP_COMMAND_READ_REGISTER_CMD 2560 4 (Word32 5) (Some None) =
   Returned
     \<lparr>r_success = True, r_buffer = Word32 77, r_error = Some None,
      r_io = example_io\<lparr>packet_id := 65301, buffer := example_truncated_ack\<rparr>,
      r_wire = \<lparr>script = [],
                trace = [TraceCmd ARV_GVCP_COMMAND_READ_REGISTER_CMD 2560 4 65301,
                         trace_ack example_truncated_ack, trace_ack example_truncated_ack]\<rparr>\<rparr>"
proof -
  have h: "poll_ready example_truncated_round"
    "received example_truncated_round = Datagram 8 example_truncated_ack"
    "sizeof_ArvGvcpHeader example_params \<le> 8"
    "8 < get_read_register_ack_size example_params"
    "get_packet_type example_truncated_ack = ARV_GVCP_PACKET_TYPE_ACK"
    "get_command example_truncated_ack = ARV_GVCP_COMMAND_READ_REGISTER_ACK"
    "get_packet_id example_truncated_ack = 65301"
    "ARV_GVCP_COMMAND_READ_REGISTER_ACK \<noteq> ARV_GVCP_COMMAND_PENDING_ACK"
    "0 < to_gint (x_timeout_stop_ms example_state - now_ms example_truncated_round)"
    "poll_ready example_failed_receive"
    "received example_failed_receive = RecvError"
    by (simp_all add: example_defs example_truncated_ack_def example_truncated_round_def
          example_failed_receive_def to_gint_def)
  note t = truncated_ack_resolves_exchange_after_failed_receive [OF h, where rs = "[]"]
  from t have a: "\<not> ack_matches ARV_GVCP_COMMAND_READ_REGISTER_ACK 65301
           (get_read_register_ack_size example_params) 8 example_truncated_ack"
    by (rule conjunct1)
  from t have b: "receive_loop example_params ARV_GVCP_COMMAND_READ_REGISTER_ACK 65301
           (get_read_register_ack_size example_params) example_state
           [example_truncated_round, example_failed_receive] =
         Returned (True, example_state\<lparr>x_buffer := example_truncated_ack,
                 x_trace := x_trace example_state @
                   [trace_ack example_truncated_ack, trace_ack example_truncated_ack]\<rparr>)"
    by (rule conjunct2 [THEN conjunct2])
  have c: "x_trace example_state = []" by (simp add: example_state_def)
  from h(3,4) a b example_truncated_exchange show ?thesis
    unfolding c by (simp del: receive_loop.simps)
qed

section \<open>Properties of block I/O\<close>

lemma n_blocks_zero:
  assumes "0 < ARV_GVCP_DATA_SIZE_MAX P" and "ARV_GVCP_DATA_SIZE_MAX P \<le> 2 ^ 32"
  shows "n_blocks P 0 = 0"
proof -
  let ?m = "ARV_GVCP_DATA_SIZE_MAX P"
  have "(?m + 2 ^ 32 - 1) mod 2 ^ 32 = (?m - 1 + 2 ^ 32) mod 2 ^ 32" using assms by simp
  also have "\<dots> = (?m - 1) mod 2 ^ 32" by simp
  also have "\<dots> = ?m - 1" using assms by simp
  finally show ?thesis using assms by (simp add: n_blocks_def)
qed

text \<open>
  C10: with a size of 0 the chunk loop of read-memory and of write-memory runs no
  iteration: the call returns success, and the buffer, the session data, the error
  placeholder, the script of the network and the trace are what they were, so no request
  was sent. (The transfer size constant is a positive 32-bit value.)
\<close>

theorem zero_size_transfer_does_nothing:
  assumes "0 < ARV_GVCP_DATA_SIZE_MAX P" and "ARV_GVCP_DATA_SIZE_MAX P \<le> 2 ^ 32"
  shows "arv_gv_device_read_memory P io w address 0 bs error =
           Returned \<lparr>r_success = True, r_buffer = Bytes bs, r_error = error, r_io = io,
                     r_wire = w\<rparr> \<and>
         arv_gv_device_write_memory P io w address 0 bs error =
           Returned \<lparr>r_success = True, r_buffer = Bytes bs, r_error = error, r_io = io,
                     r_wire = w\<rparr>"
  using assms n_blocks_zero [OF assms]
  by (simp add: arv_gv_device_read_memory_def arv_gv_device_write_memory_def block_loop.simps)

theorem zero_size_transfer_witness:
  "0 < ARV_GVCP_DATA_SIZE_MAX example_params \<and> ARV_GVCP_DATA_SIZE_MAX example_params \<le> 2 ^ 32 \<and>
   arv_gv_device_read_memory example_params example_io \<lparr>script = [], trace = []\<rparr> 2560 0 [1, 2, 3]
     (Some None) =
     Returned \<lparr>r_success = True, r_buffer = Bytes [1, 2, 3], r_error = Some None,
               r_io = example_io, r_wire = \<lparr>script = [], trace = []\<rparr>\<rparr>"
  using zero_size_transfer_does_nothing
    [of example_params example_io "\<lparr>script = [], trace = []\<rparr>" 2560 "[1, 2, 3]" "Some None"]
  by (simp add: example_params_def)

lemma n_blocks_in_range:
  assumes "0 < ARV_GVCP_DATA_SIZE_MAX P" and "sz + ARV_GVCP_DATA_SIZE_MAX P - 1 < 2 ^ 32"
  shows "n_blocks P sz = (sz + ARV_GVCP_DATA_SIZE_MAX P - 1) div ARV_GVCP_DATA_SIZE_MAX P"
proof -
  let ?m = "ARV_GVCP_DATA_SIZE_MAX P"
  have "(sz + ?m + 2 ^ 32 - 1) mod 2 ^ 32 = (sz + ?m - 1 + 2 ^ 32) mod 2 ^ 32"
    using assms by simp
  also have "\<dots> = (sz + ?m - 1) mod 2 ^ 32" by simp
  also have "\<dots> = sz + ?m - 1" using assms by simp
  finally show ?thesis by (simp add: n_blocks_def)
qed

lemma n_blocks_largest:
  assumes "2 \<le> ARV_GVCP_DATA_SIZE_MAX P" and "ARV_GVCP_DATA_SIZE_MAX P \<le> 2 ^ 32"
  shows "n_blocks P 4294967295 = 0"
proof -
  let ?m = "ARV_GVCP_DATA_SIZE_MAX P"
  have "(4294967295 + ?m + 2 ^ 32 - 1) mod 2 ^ 32 = (?m - 2 + 2 * 2 ^ 32) mod 2 ^ 32"
    using assms by simp
  also have "\<dots> = (?m - 2) mod 2 ^ 32" by (simp only: mod_mult_self1)
  also have "\<dots> = ?m - 2" using assms by simp
  finally show ?thesis using assms by (simp add: n_blocks_def)
qed

text \<open>
  C6: the number of chunks is computed in 32-bit unsigned arithmetic. It is
  \<open>ceil(size / ARV_GVCP_DATA_SIZE_MAX)\<close> as long as the sum
  \<^verbatim>\<open>size + ARV_GVCP_DATA_SIZE_MAX - 1\<close> stays below \<open>2^32\<close>. For the size \<open>2^32 - 1\<close>
  the sum wraps around to \<^verbatim>\<open>ARV_GVCP_DATA_SIZE_MAX - 2\<close> and the loop bound is 0, whatever
  the constant from 2 on: read-memory and write-memory return success without a single
  exchange (the network is not consulted, nothing is traced) and leave the buffer as it
  was, where \<open>ceil(size / ARV_GVCP_DATA_SIZE_MAX)\<close> chunks were to be transferred.
\<close>

theorem transfer_of_largest_size_exchanges_nothing:
  assumes "2 \<le> ARV_GVCP_DATA_SIZE_MAX P" and "ARV_GVCP_DATA_SIZE_MAX P \<le> 2 ^ 32"
  shows "arv_gv_device_read_memory P io w address 4294967295 bs error =
           Returned \<lparr>r_success = True, r_buffer = Bytes bs, r_error = error, r_io = io,
                     r_wire = w\<rparr> \<and>
         arv_gv_device_write_memory P io w address 4294967295 bs error =
           Returned \<lparr>r_success = True, r_buffer = Bytes bs, r_error = error, r_io = io,
                     r_wire = w\<rparr>"
  using assms n_blocks_largest [OF assms]
  by (simp add: arv_gv_device_read_memory_def arv_gv_device_write_memory_def block_loop.simps)

theorem transfer_of_largest_size_witness:
  "2 \<le> ARV_GVCP_DATA_SIZE_MAX example_params \<and> ARV_GVCP_DATA_SIZE_MAX example_params \<le> 2 ^ 32 \<and>
   arv_gv_device_read_memory example_params example_io \<lparr>script = [], trace = []\<rparr> 0 4294967295
     (replicate 4294967295 7) (Some None) =
     Returned \<lparr>r_success = True, r_buffer = Bytes (replicate 4294967295 7), r_error = Some None,
               r_io = example_io, r_wire = \<lparr>script = [], trace = []\<rparr>\<rparr>"
  using transfer_of_largest_size_exchanges_nothing
    [of example_params example_io "\<lparr>script = [], trace = []\<rparr>" 0 "replicate 4294967295 7"
        "Some None"]
  by (simp add: example_params_def)

section \<open>Properties of the heartbeat\<close>

lemma exchange_keeps_is_controller:
  assumes "send_cmd_and_receive_ack P io w command address sz buf error = Returned r"
  shows "is_controller (r_io r) = is_controller io"
  using assms
  by (auto simp: send_cmd_and_receive_ack_def Let_def
           split: option.splits if_splits list.splits outcome.splits)

lemma heartbeat_read_keeps_is_controller:
  assumes "heartbeat_read P B io w val checks = Returned (io', w', val')"
  shows "is_controller io' = is_controller io"
  using assms
proof (induction checks arbitrary: io w val)
  case Nil
  then show ?case
    by (subst (asm) heartbeat_read.simps)
       (auto simp: read_register_def split: outcome.splits if_splits
             dest: exchange_keeps_is_controller)
next
  case (Cons c cs)
  from Cons.prems obtain r
    where r: "read_register P io w (ARV_GVBS_CONTROL_CHANNEL_PRIVILEGE_OFFSET B) val None = Returned r"
    by (subst (asm) heartbeat_read.simps) (auto split: outcome.splits)
  then have k: "is_controller (r_io r) = is_controller io"
    by (simp add: read_register_def exchange_keeps_is_controller)
  show ?case
  proof (cases "\<not> r_success r \<and> fst c \<and> \<not> snd c")
    case True
    with Cons.prems r
    have "heartbeat_read P B (r_io r) (r_wire r) (word32_of (r_buffer r) val) cs
            = Returned (io', w', val')"
      by (subst (asm) heartbeat_read.simps) (auto split: prod.splits)
    from Cons.IH [OF this] k show ?thesis by simp
  next
    case False
    with Cons.prems r have "io' = r_io r"
      by (subst (asm) heartbeat_read.simps) (auto split: prod.splits if_splits)
    with k show ?thesis by simp
  qed
qed

lemma heartbeat_thread_idle:
  assumes "\<not> is_controller (hb_io st)"
  shows "arv_gv_device_heartbeat_thread P B st envs = Returned st"
  using assms by (induction envs) (simp_all add: heartbeat_iteration_def)

text \<open>
  C9: in an iteration of the heartbeat that starts with the session being controller, in
  which the cancellable is not cancelled after the read and the value read from the
  privilege register has the control and the exclusive bits both zero, one control-lost
  signal is emitted and the is-controller flag is cleared. From the state so reached, the
  thread changes nothing, whatever the rounds it runs: no further signal is emitted as
  long as nobody else sets the flag again (only \<^verbatim>\<open>arv_gv_device_take_control\<close> does).
\<close>

theorem control_lost_is_signalled_once:
  assumes "is_controller (hb_io st)"
      and "heartbeat_iteration P B st env = Returned st'"
      and "\<not> cancelled_after_read env"
      and "hb_value st' AND (ARV_GVBS_CONTROL_CHANNEL_PRIVILEGE_CONTROL B OR
                             ARV_GVBS_CONTROL_CHANNEL_PRIVILEGE_EXCLUSIVE B) = 0"
  shows "hb_control_lost st' = hb_control_lost st + 1 \<and> \<not> is_controller (hb_io st') \<and>
         (\<forall>envs. arv_gv_device_heartbeat_thread P B st' envs = Returned st')"
proof -
  from assms(1,2) obtain io' w' val
    where rd: "heartbeat_read P B (hb_io st) (hb_wire st) (hb_value st) (retry_checks env)
                 = Returned (io', w', val)"
    by (auto simp: heartbeat_iteration_def split: outcome.splits)
  from assms rd have st': "st' = \<lparr>hb_io = io'\<lparr>is_controller := False\<rparr>, hb_wire = w',
                                 hb_value = val, hb_control_lost = hb_control_lost st + 1\<rparr>"
    by (auto simp: heartbeat_iteration_def split: if_splits)
  then have "\<not> is_controller (hb_io st')" by simp
  from heartbeat_thread_idle [OF this] st' show ?thesis by simp
qed

theorem control_lost_witness:
  "is_controller (hb_io example_heartbeat) \<and>
   (\<exists>st'. heartbeat_iteration example_params example_gvbs example_heartbeat
             \<lparr>retry_checks = [], cancelled_after_read = False, cancelled_at_end = False\<rparr>
           = Returned st' \<and>
         hb_value st' = 0 \<and> hb_control_lost st' = 1 \<and> \<not> is_controller (hb_io st'))"
proof -
  let ?env = "\<lparr>retry_checks = [], cancelled_after_read = False, cancelled_at_end = False\<rparr>"
  have ex: "\<exists>st'. heartbeat_iteration example_params example_gvbs example_heartbeat ?env = Returned st'"
    by (simp add: heartbeat_iteration_def heartbeat_read.simps read_register_def
          example_heartbeat_def example_gvbs_def send_cmd_and_receive_ack_def example_defs
          arv_gvcp_next_packet_id_def receive_iteration_def size_t_ge_def to_gint_def Let_def
          word32_of_def)
  then obtain st' where ev: "heartbeat_iteration example_params example_gvbs example_heartbeat ?env = Returned st'" ..
  have v: "hb_value st' = 0"
    using ev
    by (auto simp add: heartbeat_iteration_def heartbeat_read.simps read_register_def
          example_heartbeat_def example_gvbs_def send_cmd_and_receive_ack_def example_defs
          arv_gvcp_next_packet_id_def receive_iteration_def size_t_ge_def to_gint_def Let_def
          word32_of_def)
  have c: "is_controller (hb_io example_heartbeat)"
    by (simp add: example_heartbeat_def example_defs)
  have h: "hb_control_lost example_heartbeat = 0" by (simp add: example_heartbeat_def)
  from control_lost_is_signalled_once [OF c ev, of ] v h
  have "hb_control_lost st' = 1 \<and> \<not> is_controller (hb_io st')" by simp
  with c ev v show ?thesis by blast
qed

section \<open>Properties of the schema bootstrap\<close>

subsection \<open>Requests traced by the block reads\<close>

lemma requested_at_mono:
  assumes "requested_at a w" and "trace w' = trace w @ new"
  shows "requested_at a w'"
  using assms by (auto simp: requested_at_def list_ex_iff)

lemma attempt_loop_first:
  assumes "attempt_loop P io command address sz e pid a st buf ts = Returned (ok, st', buf')"
      and "e \<noteq> ARV_GVCP_COMMAND_PENDING_ACK"
  shows "\<exists>rest. x_trace st' = x_trace st @ TraceCmd command address sz pid # rest"
proof (cases ts)
  case Nil
  with assms show ?thesis by simp
next
  case (Cons t ts')
  let ?cmd = "TraceCmd command address sz pid"
  let ?st1 = "st\<lparr>x_trace := x_trace st @ [?cmd]\<rparr>"
  show ?thesis
  proof (cases "send_ok t")
    case False
    let ?st3 = "?st1\<lparr>x_n_retries := x_n_retries ?st1 + 1\<rparr>"
    show ?thesis
    proof (cases "x_n_retries ?st3 < gvcp_n_retries io")
      case True
      with False Cons assms
      have "attempt_loop P io command address sz e pid a ?st3 buf ts' = Returned (ok, st', buf')"
        by (simp add: Let_def)
      from attempt_loop_trace [OF this assms(2)]
      obtain new where "x_trace st' = x_trace ?st3 @ new" by blast
      then show ?thesis by simp
    next
      case nomore: False
      with False Cons assms have "st' = ?st3" by (simp add: Let_def)
      then show ?thesis by simp
    qed
  next
    case True
    let ?st1' = "?st1\<lparr>x_timeout_stop_ms := sent_at_ms t + int (gvcp_timeout_ms io)\<rparr>"
    from True Cons assms obtain success st2
      where rx: "receive_loop P e pid a ?st1' (rounds t) = Returned (success, st2)"
      by (auto simp: Let_def split: outcome.splits)
    from receive_loop_trace [OF rx assms(2)]
    obtain new1 where n1: "x_trace st2 = x_trace ?st1' @ new1" by blast
    let ?buf' = "if success \<and> x_command_error st2 = ARV_GVCP_ERROR_NONE P
                 then store_ack command buf (x_buffer st2) sz else buf"
    let ?st3 = "st2\<lparr>x_n_retries := x_n_retries st2 + 1\<rparr>"
    show ?thesis
    proof (cases "\<not> success \<and> x_n_retries ?st3 < gvcp_n_retries io")
      case again: True
      with True rx Cons assms
      have "attempt_loop P io command address sz e pid a ?st3 ?buf' ts' = Returned (ok, st', buf')"
        by (simp add: Let_def)
      from attempt_loop_trace [OF this assms(2)]
      obtain new2 where "x_trace st' = x_trace ?st3 @ new2" by blast
      with n1 show ?thesis by simp
    next
      case stop: False
      with True rx Cons assms have "st' = ?st3"
        by (auto simp add: Let_def split: if_splits)
      with n1 show ?thesis by simp
    qed
  qed
qed

lemma exchange_trace_grows:
  assumes "send_cmd_and_receive_ack P io w command address sz buf error = Returned r"
  shows "\<exists>new. trace (r_wire r) = trace w @ new"
proof (cases "expected_ack P command sz")
  case None
  with assms show ?thesis by (simp add: send_cmd_and_receive_ack_def)
next
  case (Some ea)
  obtain e a where ea: "ea = (e, a)" by (cases ea)
  show ?thesis
  proof (cases "a \<le> ARV_GV_DEVICE_BUFFER_SIZE P")
    case False
    with assms Some ea have "r_wire r = w"
      by (auto simp: send_cmd_and_receive_ack_def)
    then show ?thesis by simp
  next
    case True
    with assms Some ea show ?thesis
      by (auto simp: send_cmd_and_receive_ack_def Let_def
               split: list.splits outcome.splits)
  qed
qed

lemma exchange_requested:
  assumes run: "send_cmd_and_receive_ack P io w command address sz buf error = Returned r"
      and cmd: "expected_ack P command sz = Some (e, a)"
      and fits: "a \<le> ARV_GV_DEVICE_BUFFER_SIZE P"
  shows "requested_at address (r_wire r)"
proof -
  let ?pid = "arv_gvcp_next_packet_id (packet_id io)"
  let ?st = "\<lparr>x_buffer = buffer io, x_timeout_stop_ms = 0,
              x_command_error = ARV_GVCP_ERROR_NONE P, x_n_retries = 0, x_trace = []\<rparr>"
  from run cmd fits obtain attempts rest where sc: "script w = attempts # rest"
    by (cases "script w") (auto simp: send_cmd_and_receive_ack_def)
  from run cmd fits sc obtain ok st' buf'
    where al: "attempt_loop P io command address sz e ?pid a ?st buf attempts = Returned (ok, st', buf')"
    by (auto simp: send_cmd_and_receive_ack_def Let_def split: outcome.splits)
  from run cmd fits sc al have tr: "trace (r_wire r) = trace w @ x_trace st'"
    by (auto simp: send_cmd_and_receive_ack_def Let_def)
  from attempt_loop_first [OF al expected_ack_not_pending [OF cmd]]
  obtain rest' where "x_trace st' = TraceCmd command address sz ?pid # rest'" by auto
  with tr show ?thesis by (simp add: requested_at_def)
qed

lemma block_loop_trace_grows:
  assumes "block_loop xfer P io w address sz bs error i = Returned r"
      and "\<And>io w address sz buf error r. xfer P io w address sz buf error = Returned r
             \<Longrightarrow> \<exists>new. trace (r_wire r) = trace w @ new"
  shows "\<exists>new. trace (r_wire r) = trace w @ new"
  using assms
proof (induction xfer P io w address sz bs error i rule: block_loop.induct)
  case (1 xfer P io w address sz bs error i)
  note run0 = "1.prems"(1) and grows = "1.prems"(2)
  let ?offset = "i * ARV_GVCP_DATA_SIZE_MAX P"
  show ?case
  proof (cases "ARV_GVCP_DATA_SIZE_MAX P \<noteq> 0 \<and> i < n_blocks P sz")
    case False
    with run0 have "r_wire r = w"
      by (subst (asm) block_loop.simps) (auto split: if_splits)
    then show ?thesis by simp
  next
    case True
    with run0 have small: "\<not> 2 ^ 31 \<le> ?offset"
      by (subst (asm) block_loop.simps) (auto split: if_splits)
    with True run0 obtain r1
      where x: "xfer P io w ((address + ?offset) mod 2 ^ 64) (block_size P sz i)
                   (Bytes (drop ?offset bs)) error = Returned r1"
      by (subst (asm) block_loop.simps) (auto simp: Let_def split: outcome.splits)
    from grows [OF x] obtain new1 where n1: "trace (r_wire r1) = trace w @ new1" by blast
    let ?bs' = "take ?offset bs @ bytes_of (r_buffer r1) (drop ?offset bs)"
    show ?thesis
    proof (cases "r_success r1")
      case False
      with True small x run0 have "r = r1\<lparr>r_success := False, r_buffer := Bytes ?bs'\<rparr>"
        by (subst (asm) block_loop.simps) (simp add: Let_def)
      with n1 show ?thesis by simp
    next
      case ok: True
      with True small x run0
      have run: "block_loop xfer P (r_io r1) (r_wire r1) address sz ?bs' (r_error r1) (i + 1) = Returned r"
        by (subst (asm) block_loop.simps) (simp add: Let_def)
      from True small have c1: "ARV_GVCP_DATA_SIZE_MAX P \<noteq> 0" "i < n_blocks P sz"
        "\<not> 2 ^ 31 \<le> i * ARV_GVCP_DATA_SIZE_MAX P" by simp_all
      have nn: "\<not> \<not> r_success r1" using ok by simp
      have "\<exists>new. trace (r_wire r) = trace (r_wire r1) @ new"
        by (rule "1.IH" [OF c1 refl x refl nn run]) (rule grows)
      then obtain new2 where "trace (r_wire r) = trace (r_wire r1) @ new2" by blast
      with n1 show ?thesis by simp
    qed
  qed
qed

lemma read_memory_trace_grows:
  assumes "arv_gv_device_read_memory P io w address sz bs error = Returned r"
  shows "\<exists>new. trace (r_wire r) = trace w @ new"
  using assms unfolding arv_gv_device_read_memory_def
  by (rule block_loop_trace_grows) (simp add: read_memory_def exchange_trace_grows)

lemma read_memory_requested:
  assumes run: "arv_gv_device_read_memory P io w address sz bs error = Returned r"
      and blocks: "0 < n_blocks P sz"
      and fits: "get_read_memory_ack_size P (block_size P sz 0) \<le> ARV_GV_DEVICE_BUFFER_SIZE P"
      and addr: "address < 2 ^ 64"
  shows "requested_at address (r_wire r)"
proof -
  from run blocks have m: "ARV_GVCP_DATA_SIZE_MAX P \<noteq> 0"
    unfolding arv_gv_device_read_memory_def
    by (subst (asm) block_loop.simps) (auto split: if_splits)
  from run blocks m addr obtain r1
    where x: "read_memory P io w address (block_size P sz 0) (Bytes bs) error = Returned r1"
    unfolding arv_gv_device_read_memory_def
    by (subst (asm) block_loop.simps) (auto simp: Let_def split: outcome.splits)
  have e: "expected_ack P ARV_GVCP_COMMAND_READ_MEMORY_CMD (block_size P sz 0) =
             Some (ARV_GVCP_COMMAND_READ_MEMORY_ACK, get_read_memory_ack_size P (block_size P sz 0))"
    by simp
  from x have rq: "requested_at address (r_wire r1)"
    unfolding read_memory_def by (rule exchange_requested [OF _ e fits])
  show ?thesis
  proof (cases "r_success r1")
    case False
    with run blocks m addr x have "r_wire r = r_wire r1"
      unfolding arv_gv_device_read_memory_def
      by (subst (asm) block_loop.simps) (auto simp: Let_def)
    with rq show ?thesis by (simp add: requested_at_def)
  next
    case True
    with run blocks m addr x
    have "block_loop read_memory P (r_io r1) (r_wire r1) address sz
            (bytes_of (r_buffer r1) bs) (r_error r1) 1 = Returned r"
      unfolding arv_gv_device_read_memory_def
      by (subst (asm) block_loop.simps) (auto simp: Let_def)
    then have "\<exists>new. trace (r_wire r) = trace (r_wire r1) @ new"
      by (rule block_loop_trace_grows) (simp add: read_memory_def exchange_trace_grows)
    with rq show ?thesis by (auto intro: requested_at_mono)
  qed
qed

lemma load_local_trace_grows:
  assumes "load_local P H io w error u = Returned l"
  shows "\<exists>new. trace (l_wire l) = trace w @ new"
proof (cases "0 < url_file_size u")
  case False
  with assms have "l_wire l = w" by (auto simp: load_local_def)
  then show ?thesis by simp
next
  case True
  with assms obtain r
    where r: "arv_gv_device_read_memory P io w (url_file_address u) (url_file_size u mod 2 ^ 32)
                (uninitialised H (url_file_size u)) None = Returned r"
    by (auto simp: load_local_def split: outcome.splits)
  with True assms have "l_wire l = r_wire r"
    by (auto simp: load_local_def Let_def split: if_splits option.splits)
  with read_memory_trace_grows [OF r] show ?thesis by simp
qed

lemma load_genicam_requested:
  assumes run: "load_genicam P B H io w address error = Returned l"
      and blocks: "0 < n_blocks P (ARV_GVBS_XML_URL_SIZE B)"
      and fits: "get_read_memory_ack_size P (block_size P (ARV_GVBS_XML_URL_SIZE B) 0)
                   \<le> ARV_GV_DEVICE_BUFFER_SIZE P"
      and addr: "address < 2 ^ 64"
  shows "requested_at address (l_wire l)"
proof -
  from run have nz: "ARV_GVBS_XML_URL_SIZE B \<noteq> 0"
    by (auto simp: load_genicam_def split: if_splits)
  with run obtain r
    where r: "arv_gv_device_read_memory P io w address (ARV_GVBS_XML_URL_SIZE B)
                (uninitialised H (ARV_GVBS_XML_URL_SIZE B)) error = Returned r"
    by (auto simp: load_genicam_def split: outcome.splits)
  from read_memory_requested [OF r blocks fits addr]
  have rq: "requested_at address (r_wire r)" .
  have "\<exists>new. trace (l_wire l) = trace (r_wire r) @ new"
  proof (cases "\<exists>u. load_local P H (r_io r) (r_wire r) (r_error r) u = Returned l")
    case True
    then show ?thesis using load_local_trace_grows by blast
  next
    case False
    with run nz r have "l_wire l = r_wire r"
      by (auto simp: load_genicam_def Let_def split: if_splits option.splits)
    then show ?thesis by simp
  qed
  with rq show ?thesis by (auto intro: requested_at_mono)
qed

subsection \<open>Evaluation of the example session\<close>

lemma example_url_read:
  "arv_gv_device_read_memory example_params (example_io\<lparr>packet_id := p, buffer := b\<rparr>)
     \<lparr>script = example_url_exchange (arv_gvcp_next_packet_id p) # rest, trace = tr\<rparr>
     a 512 (replicate 512 0) (Some None) =
   Returned \<lparr>r_success = True, r_buffer = Bytes (replicate 512 0), r_error = Some None,
             r_io = example_io\<lparr>packet_id := arv_gvcp_next_packet_id p,
                      buffer := example_packet ARV_GVCP_PACKET_TYPE_ACK 0
                                 ARV_GVCP_COMMAND_READ_MEMORY_ACK (arv_gvcp_next_packet_id p)\<rparr>,
             r_wire = \<lparr>script = rest,
                       trace = tr @ [TraceCmd ARV_GVCP_COMMAND_READ_MEMORY_CMD (a mod 2 ^ 64) 512
                                       (arv_gvcp_next_packet_id p),
                                     TraceAck ARV_GVCP_PACKET_TYPE_ACK 0
                                       ARV_GVCP_COMMAND_READ_MEMORY_ACK (arv_gvcp_next_packet_id p)]\<rparr>\<rparr>"
proof -
  have n: "n_blocks example_params 512 = 1" by (simp add: n_blocks_def example_params_def)
  have b: "block_size example_params 512 0 = 512" by (simp add: block_size_def example_params_def)
  have m: "ARV_GVCP_DATA_SIZE_MAX example_params = 512" by (simp add: example_params_def)
  have x: "\<And>a'. read_memory example_params (example_io\<lparr>packet_id := p, buffer := b\<rparr>)
     \<lparr>script = example_url_exchange (arv_gvcp_next_packet_id p) # rest, trace = tr\<rparr>
     a' 512 (Bytes (replicate 512 0)) (Some None) =
   Returned \<lparr>r_success = True, r_buffer = Bytes (replicate 512 0), r_error = Some None,
             r_io = example_io\<lparr>packet_id := arv_gvcp_next_packet_id p,
                      buffer := example_packet ARV_GVCP_PACKET_TYPE_ACK 0
                                 ARV_GVCP_COMMAND_READ_MEMORY_ACK (arv_gvcp_next_packet_id p)\<rparr>,
             r_wire = \<lparr>script = rest,
                       trace = tr @ [TraceCmd ARV_GVCP_COMMAND_READ_MEMORY_CMD a' 512
                                       (arv_gvcp_next_packet_id p),
                                     TraceAck ARV_GVCP_PACKET_TYPE_ACK 0
                                       ARV_GVCP_COMMAND_READ_MEMORY_ACK (arv_gvcp_next_packet_id p)]\<rparr>\<rparr>"
    by (simp add: read_memory_def send_cmd_and_receive_ack_def example_defs example_url_exchange_def
          receive_iteration_def size_t_ge_def to_gint_def Let_def
          trace_ack_def map_replicate_const)
  show ?thesis
    unfolding arv_gv_device_read_memory_def
    apply (subst block_loop.simps)
    apply (simp add: n b m x bytes_of_def)
    apply (subst block_loop.simps)
    apply (simp add: n b m)
    done
qed

lemma example_timeout:
  "arv_gv_device_read_memory example_params example_io example_timeout_wire
     512 512 (replicate 512 0) (Some None) =
   Returned \<lparr>r_success = False, r_buffer = Bytes (replicate 512 0),
             r_error = Some (Some ARV_DEVICE_ERROR_TIMEOUT),
             r_io = example_io\<lparr>packet_id := 65301\<rparr>,
             r_wire = \<lparr>script = [], trace = example_timeout_trace\<rparr>\<rparr>"
proof -
  have n: "n_blocks example_params 512 = 1" by (simp add: n_blocks_def example_params_def)
  have b: "block_size example_params 512 0 = 512" by (simp add: block_size_def example_params_def)
  have m: "ARV_GVCP_DATA_SIZE_MAX example_params = 512" by (simp add: example_params_def)
  have x: "read_memory example_params example_io example_timeout_wire
     512 512 (Bytes (replicate 512 0)) (Some None) =
   Returned \<lparr>r_success = False, r_buffer = Bytes (replicate 512 0),
             r_error = Some (Some ARV_DEVICE_ERROR_TIMEOUT),
             r_io = example_io\<lparr>packet_id := 65301\<rparr>,
             r_wire = \<lparr>script = [], trace = example_timeout_trace\<rparr>\<rparr>"
    by (simp add: read_memory_def send_cmd_and_receive_ack_def example_defs
          example_failed_send_def example_timeout_wire_def example_timeout_trace_def
          arv_gvcp_next_packet_id_def Let_def report_error_def)
  show ?thesis
    unfolding arv_gv_device_read_memory_def
    apply (subst block_loop.simps)
    apply (simp add: n b m x bytes_of_def)
    done
qed

lemma example_gvbs_simps:
  "ARV_GVBS_XML_URL_SIZE example_gvbs = 512" "ARV_GVBS_XML_URL_0_OFFSET example_gvbs = 512"
  "ARV_GVBS_XML_URL_1_OFFSET example_gvbs = 1024"
  by (simp_all add: example_gvbs_def)

lemma example_host_simps:
  "uninitialised example_host n = replicate n 0"
  "arv_parse_genicam_url example_host f =
     Some \<lparr>url_scheme = ''HTTP'', url_path = ''camera/features.xml'',
            url_file_address = 0, url_file_size = 0\<rparr>"
  "g_file_read_uri example_host f = Some (Some [60, 62])"
  by (simp_all add: example_host_def)

lemma example_scheme:
  "g_ascii_strcasecmp (Some ''HTTP'') ''http'' = 0"
  "g_ascii_strcasecmp (Some ''HTTP'') ''file'' \<noteq> 0"
  "g_ascii_strcasecmp (Some ''HTTP'') ''local'' \<noteq> 0"
  by (simp_all add: g_ascii_strcasecmp_def g_ascii_tolower_def)

lemma example_io_as_update:
  "example_io = example_io\<lparr>packet_id := 65300, buffer := buffer example_io\<rparr>"
  by (simp add: example_io_def)

lemma replicate_update_same: "(replicate n x)[i := x] = replicate n x"
  by (induction n arbitrary: i) (auto split: nat.splits)

lemma example_load:
  "load_genicam example_params example_gvbs example_host (example_io\<lparr>packet_id := p, buffer := b\<rparr>)
     \<lparr>script = example_url_exchange (arv_gvcp_next_packet_id p) # rest, trace = tr\<rparr> a (Some None) =
   Returned \<lparr>l_genicam = None, l_size = 0, l_error = Some None,
             l_io = example_io\<lparr>packet_id := arv_gvcp_next_packet_id p,
                      buffer := example_packet ARV_GVCP_PACKET_TYPE_ACK 0
                                 ARV_GVCP_COMMAND_READ_MEMORY_ACK (arv_gvcp_next_packet_id p)\<rparr>,
             l_wire = \<lparr>script = rest,
                       trace = tr @ [TraceCmd ARV_GVCP_COMMAND_READ_MEMORY_CMD (a mod 2 ^ 64) 512
                                       (arv_gvcp_next_packet_id p),
                                     TraceAck ARV_GVCP_PACKET_TYPE_ACK 0
                                       ARV_GVCP_COMMAND_READ_MEMORY_ACK (arv_gvcp_next_packet_id p)]\<rparr>,
             l_critical = [[]]\<rparr>"
  by (simp add: load_genicam_def example_gvbs_simps example_host_simps example_url_read
        example_scheme Let_def bytes_of_def c_string_def takeWhile_replicate
        replicate_update_same)

subsection \<open>Dispatch on the scheme of the URL\<close>

lemma tolower_literals:
  "g_ascii_tolower CHR ''h'' = 104" "g_ascii_tolower CHR ''f'' = 102" "g_ascii_tolower CHR ''l'' = 108"
  by (simp_all add: g_ascii_tolower_def)

lemma http_is_neither_file_nor_local:
  assumes "ascii_strcasecmp s ''http'' = 0"
  shows "ascii_strcasecmp s ''file'' \<noteq> 0 \<and> ascii_strcasecmp s ''local'' \<noteq> 0"
proof (cases s)
  case Nil
  with assms show ?thesis by simp
next
  case (Cons x xs)
  with assms have "g_ascii_tolower x = 104"
    by (auto simp: tolower_literals split: if_splits)
  with Cons show ?thesis by (simp add: tolower_literals)
qed

text \<open>
  C1: the third branch of the dispatch is taken when
  \<^verbatim>\<open>g_ascii_strcasecmp (scheme, "http")\<close> is non-zero, that is when the scheme differs
  from http; the two earlier branches compare with \<^verbatim>\<open>== 0\<close>. So, once the URL has been
  read and parsed: for a scheme that compares equal to http the loader emits the critical
  message and returns no XML, without reading the URI; for a scheme that is none of file,
  local and http the loader returns what the URI reader yields and emits no message. This
  is the reverse of the behaviour specified for the two cases.
\<close>

theorem http_scheme_yields_critical_and_other_schemes_are_fetched:
  assumes "0 < ARV_GVBS_XML_URL_SIZE B"
      and "arv_gv_device_read_memory P io w address (ARV_GVBS_XML_URL_SIZE B)
             (uninitialised H (ARV_GVBS_XML_URL_SIZE B)) error = Returned r"
      and "r_success r"
      and "filename = c_string ((bytes_of (r_buffer r) [])[ARV_GVBS_XML_URL_SIZE B - 1 := 0])"
      and "arv_parse_genicam_url H filename = Some u"
  shows "(g_ascii_strcasecmp (Some (url_scheme u)) ''http'' = 0 \<longrightarrow>
            load_genicam P B H io w address error =
              Returned \<lparr>l_genicam = None, l_size = 0, l_error = r_error r, l_io = r_io r,
                        l_wire = r_wire r, l_critical = [filename]\<rparr>) \<and>
         (g_ascii_strcasecmp (Some (url_scheme u)) ''file'' \<noteq> 0 \<and>
          g_ascii_strcasecmp (Some (url_scheme u)) ''local'' \<noteq> 0 \<and>
          g_ascii_strcasecmp (Some (url_scheme u)) ''http'' \<noteq> 0 \<longrightarrow>
            load_genicam P B H io w address error =
              Returned \<lparr>l_genicam = (case g_file_read_uri H filename of None \<Rightarrow> None
                                      | Some body \<Rightarrow> body),
                        l_size = size_of_contents (case g_file_read_uri H filename of None \<Rightarrow> None
                                      | Some body \<Rightarrow> body),
                        l_error = r_error r, l_io = r_io r, l_wire = r_wire r,
                        l_critical = []\<rparr>)"
proof (intro conjI impI)
  assume h: "g_ascii_strcasecmp (Some (url_scheme u)) ''http'' = 0"
  then have "ascii_strcasecmp (url_scheme u) ''http'' = 0" by (simp add: g_ascii_strcasecmp_def)
  from http_is_neither_file_nor_local [OF this]
  have nf: "g_ascii_strcasecmp (Some (url_scheme u)) ''file'' \<noteq> 0"
    and nl: "g_ascii_strcasecmp (Some (url_scheme u)) ''local'' \<noteq> 0"
    by (simp_all add: g_ascii_strcasecmp_def)
  from assms h nf nl
  show "load_genicam P B H io w address error =
              Returned \<lparr>l_genicam = None, l_size = 0, l_error = r_error r, l_io = r_io r,
                        l_wire = r_wire r, l_critical = [filename]\<rparr>"
    by (simp add: load_genicam_def Let_def)
next
  assume "g_ascii_strcasecmp (Some (url_scheme u)) ''file'' \<noteq> 0 \<and>
          g_ascii_strcasecmp (Some (url_scheme u)) ''local'' \<noteq> 0 \<and>
          g_ascii_strcasecmp (Some (url_scheme u)) ''http'' \<noteq> 0"
  with assms
  show "load_genicam P B H io w address error =
              Returned \<lparr>l_genicam = (case g_file_read_uri H filename of None \<Rightarrow> None
                                      | Some body \<Rightarrow> body),
                        l_size = size_of_contents (case g_file_read_uri H filename of None \<Rightarrow> None
                                      | Some body \<Rightarrow> body),
                        l_error = r_error r, l_io = r_io r, l_wire = r_wire r,
                        l_critical = []\<rparr>"
    by (simp add: load_genicam_def Let_def)
qed

theorem http_scheme_witness:
  "0 < ARV_GVBS_XML_URL_SIZE example_gvbs \<and>
   g_ascii_strcasecmp (Some ''HTTP'') ''http'' = 0 \<and>
   g_file_read_uri example_host [] = Some (Some [60, 62]) \<and>
   load_genicam example_params example_gvbs example_host example_io
     \<lparr>script = [example_url_exchange 65301], trace = []\<rparr> 512 (Some None) =
   Returned \<lparr>l_genicam = None, l_size = 0, l_error = Some None,
             l_io = example_io\<lparr>packet_id := 65301,
                      buffer := example_packet ARV_GVCP_PACKET_TYPE_ACK 0
                                 ARV_GVCP_COMMAND_READ_MEMORY_ACK 65301\<rparr>,
             l_wire = \<lparr>script = [],
                       trace = [TraceCmd ARV_GVCP_COMMAND_READ_MEMORY_CMD 512 512 65301,
                                TraceAck ARV_GVCP_PACKET_TYPE_ACK 0
                                  ARV_GVCP_COMMAND_READ_MEMORY_ACK 65301]\<rparr>,
             l_critical = [[]]\<rparr>"
proof -
  have id: "arv_gvcp_next_packet_id 65300 = 65301" by (simp add: arv_gvcp_next_packet_id_def)
  have rd: "arv_gv_device_read_memory example_params example_io
              \<lparr>script = [example_url_exchange 65301], trace = []\<rparr> 512
              (ARV_GVBS_XML_URL_SIZE example_gvbs)
              (uninitialised example_host (ARV_GVBS_XML_URL_SIZE example_gvbs)) (Some None) =
            Returned \<lparr>r_success = True, r_buffer = Bytes (replicate 512 0), r_error = Some None,
              r_io = example_io\<lparr>packet_id := 65301,
                      buffer := example_packet ARV_GVCP_PACKET_TYPE_ACK 0
                                 ARV_GVCP_COMMAND_READ_MEMORY_ACK 65301\<rparr>,
              r_wire = \<lparr>script = [],
                       trace = [TraceCmd ARV_GVCP_COMMAND_READ_MEMORY_CMD 512 512 65301,
                                TraceAck ARV_GVCP_PACKET_TYPE_ACK 0
                                  ARV_GVCP_COMMAND_READ_MEMORY_ACK 65301]\<rparr>\<rparr>"
    using example_url_read [where p = 65300 and b = "buffer example_io" and rest = "[]"
            and tr = "[]" and a = 512]
    by (simp add: id example_gvbs_simps example_host_simps example_io_as_update [symmetric])
  have fn: "[] = c_string ((bytes_of (Bytes (replicate 512 0)) [])
                     [ARV_GVBS_XML_URL_SIZE example_gvbs - 1 := 0])"
    by (simp add: bytes_of_def c_string_def takeWhile_replicate example_gvbs_simps
          replicate_update_same)
  from http_scheme_yields_critical_and_other_schemes_are_fetched
         [OF _ rd _ _ example_host_simps(2), of "[]"] fn
  show ?thesis
    by (simp add: example_gvbs_simps example_scheme example_host_simps)
qed

subsection \<open>The second URL\<close>

text \<open>
  C2, as stated, fails: when the read of the URL register of slot 0 times out, the load of
  slot 0 yields no XML and reports the timeout, and \<^verbatim>\<open>_get_genicam_xml\<close> returns that
  error without any request for the register of slot 1 (the guard of the second load is
  \<^verbatim>\<open>xml == NULL && local_error == NULL\<close>).
\<close>

theorem failed_url_read_does_not_try_second_url:
  "load_genicam example_params example_gvbs example_host (io_data example_priv)
     example_timeout_wire (ARV_GVBS_XML_URL_0_OFFSET example_gvbs) (Some None) =
     Returned \<lparr>l_genicam = None, l_size = 0, l_error = Some (Some ARV_DEVICE_ERROR_TIMEOUT),
               l_io = example_io\<lparr>packet_id := 65301\<rparr>,
               l_wire = \<lparr>script = [], trace = example_timeout_trace\<rparr>, l_critical = []\<rparr> \<and>
   get_genicam_xml example_params example_gvbs example_host example_priv example_timeout_wire
     (Some None) =
     Returned \<lparr>x_xml = None, x_size = 0, x_error = Some (Some ARV_DEVICE_ERROR_TIMEOUT),
               x_priv = example_priv\<lparr>io_data := example_io\<lparr>packet_id := 65301\<rparr>\<rparr>,
               x_wire = \<lparr>script = [], trace = example_timeout_trace\<rparr>, x_critical = []\<rparr> \<and>
   \<not> requested_at (ARV_GVBS_XML_URL_1_OFFSET example_gvbs)
       \<lparr>script = [], trace = example_timeout_trace\<rparr>"
proof -
  have l: "load_genicam example_params example_gvbs example_host example_io
     example_timeout_wire 512 (Some None) =
     Returned \<lparr>l_genicam = None, l_size = 0, l_error = Some (Some ARV_DEVICE_ERROR_TIMEOUT),
               l_io = example_io\<lparr>packet_id := 65301\<rparr>,
               l_wire = \<lparr>script = [], trace = example_timeout_trace\<rparr>, l_critical = []\<rparr>"
    by (simp add: load_genicam_def example_gvbs_simps example_host_simps example_timeout)
  have g: "get_genicam_xml example_params example_gvbs example_host example_priv example_timeout_wire
     (Some None) =
     Returned \<lparr>x_xml = None, x_size = 0, x_error = Some (Some ARV_DEVICE_ERROR_TIMEOUT),
               x_priv = example_priv\<lparr>io_data := example_io\<lparr>packet_id := 65301\<rparr>\<rparr>,
               x_wire = \<lparr>script = [], trace = example_timeout_trace\<rparr>, x_critical = []\<rparr>"
    by (simp add: get_genicam_xml_def example_priv_def example_gvbs_simps l
          finish_genicam_xml_def g_propagate_error_def)
  have r: "\<not> requested_at (ARV_GVBS_XML_URL_1_OFFSET example_gvbs)
       \<lparr>script = [], trace = example_timeout_trace\<rparr>"
    by (simp add: requested_at_def example_timeout_trace_def example_gvbs_simps)
  from l g r show ?thesis by (simp add: example_priv_def example_gvbs_simps)
qed

text \<open>
  C2, amended: when the load of slot 0 yields no XML and reports no error, the register of
  slot 1 is requested before \<^verbatim>\<open>_get_genicam_xml\<close> returns; when the load of slot 0
  reports an error, that error is propagated, no XML is returned and nothing more is
  exchanged with the device. (The hypotheses on the constants say that the URL register is
  not empty, that the ack of its first block fits the scratch buffer and that the offset of
  slot 1 is a 64-bit address.)
\<close>

theorem second_url_is_read_unless_an_error_was_reported:
  assumes cache: "genicam_xml priv = None"
      and run: "get_genicam_xml P B H priv w error = Returned x"
      and slot0: "load_genicam P B H (io_data priv) w (ARV_GVBS_XML_URL_0_OFFSET B) (Some None)
                    = Returned l0"
      and blocks: "0 < n_blocks P (ARV_GVBS_XML_URL_SIZE B)"
      and fits: "get_read_memory_ack_size P (block_size P (ARV_GVBS_XML_URL_SIZE B) 0)
                   \<le> ARV_GV_DEVICE_BUFFER_SIZE P"
      and addr: "ARV_GVBS_XML_URL_1_OFFSET B < 2 ^ 64"
  shows "(l_genicam l0 = None \<and> l_error l0 = Some None \<longrightarrow>
            requested_at (ARV_GVBS_XML_URL_1_OFFSET B) (x_wire x)) \<and>
         (\<forall>e. l_error l0 = Some (Some e) \<longrightarrow>
            x_xml x = None \<and> x_error x = g_propagate_error error e \<and> x_wire x = l_wire l0)"
proof -
  have first: "requested_at (ARV_GVBS_XML_URL_1_OFFSET B) (x_wire x)"
    if a: "l_genicam l0 = None \<and> l_error l0 = Some None"
  proof -
    from a cache run slot0 obtain l1
      where l1: "load_genicam P B H (l_io l0) (l_wire l0) (ARV_GVBS_XML_URL_1_OFFSET B) (l_error l0)
                   = Returned l1"
        and x: "x = finish_genicam_xml priv error (l_critical l0) l1"
      by (auto simp: get_genicam_xml_def split: outcome.splits)
    from x have "x_wire x = l_wire l1"
      by (auto simp: finish_genicam_xml_def split: option.splits)
    with load_genicam_requested [OF l1 blocks fits addr] show ?thesis by simp
  qed
  have second: "x_xml x = None \<and> x_error x = g_propagate_error error e \<and> x_wire x = l_wire l0"
    if e: "l_error l0 = Some (Some e)" for e
  proof -
    from e cache run slot0 have "x = finish_genicam_xml priv error [] l0"
      by (auto simp: get_genicam_xml_def)
    with e show ?thesis by (simp add: finish_genicam_xml_def)
  qed
  from first second show ?thesis by blast
qed

theorem second_url_witness:
  "genicam_xml example_priv = None \<and>
   (\<exists>x. get_genicam_xml example_params example_gvbs example_host example_priv
           \<lparr>script = [example_url_exchange 65301, example_url_exchange 65302], trace = []\<rparr>
           (Some None) = Returned x \<and>
        x_xml x = None \<and>
        requested_at (ARV_GVBS_XML_URL_1_OFFSET example_gvbs) (x_wire x))"
proof -
  let ?w = "\<lparr>script = [example_url_exchange 65301, example_url_exchange 65302], trace = []\<rparr>"
  have id: "arv_gvcp_next_packet_id 65300 = 65301" "arv_gvcp_next_packet_id 65301 = 65302"
    by (simp_all add: arv_gvcp_next_packet_id_def)
  have l0: "load_genicam example_params example_gvbs example_host (io_data example_priv) ?w
              (ARV_GVBS_XML_URL_0_OFFSET example_gvbs) (Some None) =
            Returned \<lparr>l_genicam = None, l_size = 0, l_error = Some None,
             l_io = example_io\<lparr>packet_id := 65301,
                      buffer := example_packet ARV_GVCP_PACKET_TYPE_ACK 0
                                 ARV_GVCP_COMMAND_READ_MEMORY_ACK 65301\<rparr>,
             l_wire = \<lparr>script = [example_url_exchange 65302],
                       trace = [TraceCmd ARV_GVCP_COMMAND_READ_MEMORY_CMD 512 512 65301,
                                TraceAck ARV_GVCP_PACKET_TYPE_ACK 0
                                  ARV_GVCP_COMMAND_READ_MEMORY_ACK 65301]\<rparr>,
             l_critical = [[]]\<rparr>"
    using example_load [where p = 65300 and b = "buffer example_io"
            and rest = "[example_url_exchange 65302]" and tr = "[]" and a = 512]
    by (simp add: id example_gvbs_simps example_priv_def example_io_as_update [symmetric])
  have ex: "\<exists>x. get_genicam_xml example_params example_gvbs example_host example_priv ?w
                  (Some None) = Returned x \<and> x_xml x = None"
    using l0 example_load [where p = 65301 and b = "example_packet ARV_GVCP_PACKET_TYPE_ACK 0
                                 ARV_GVCP_COMMAND_READ_MEMORY_ACK 65301" and rest = "[]"]
    by (simp add: get_genicam_xml_def example_priv_def id example_gvbs_simps
          finish_genicam_xml_def)
  then obtain x where x: "get_genicam_xml example_params example_gvbs example_host example_priv ?w
                  (Some None) = Returned x" and n: "x_xml x = None" by blast
  have c: "genicam_xml example_priv = None" by (simp add: example_priv_def)
  have blocks: "0 < n_blocks example_params (ARV_GVBS_XML_URL_SIZE example_gvbs)"
    by (simp add: n_blocks_def example_params_def example_gvbs_simps)
  have fits: "get_read_memory_ack_size example_params
                (block_size example_params (ARV_GVBS_XML_URL_SIZE example_gvbs) 0)
                \<le> ARV_GV_DEVICE_BUFFER_SIZE example_params"
    by (simp add: block_size_def example_params_def example_gvbs_simps)
  have addr: "ARV_GVBS_XML_URL_1_OFFSET example_gvbs < 2 ^ 64"
    by (simp add: example_gvbs_simps)
  from second_url_is_read_unless_an_error_was_reported [OF c x l0 blocks fits addr]
  have "requested_at (ARV_GVBS_XML_URL_1_OFFSET example_gvbs) (x_wire x)" by simp
  with c x n show ?thesis by blast
qed

section \<open>Properties of the packet size probe\<close>

lemma to_guint_nat: "0 \<le> x \<Longrightarrow> x < 2 ^ 32 \<Longrightarrow> to_guint x = nat x"
  by (simp add: to_guint_def)

lemma to_guint_int: "n < 2 ^ 32 \<Longrightarrow> to_guint (int n) = n"
  by (simp add: to_guint_def)

lemma to_guint_less: "to_guint x < 2 ^ 32"
  by (simp add: to_guint_def nat_less_iff)

lemma example_gvsp_simps:
  "ARV_GVSP_MINIMUM_PACKET_SIZE example_gvsp = 46"
  "ARV_GVSP_MAXIMUM_PACKET_SIZE example_gvsp = 65536"
  "ARV_GVSP_PACKET_UDP_OVERHEAD example_gvsp = 28"
  by (simp_all add: example_gvsp_def)

subsection \<open>The bisection\<close>
















lemma example_probe_simps:
  "fire_test_packet (example_probe lo hi i v rs) = FireCommand"
  "feature_increment (example_probe lo hi i v rs) = i"
  "feature_value (example_probe lo hi i v rs) = v"
  "feature_minimum (example_probe lo hi i v rs) = lo"
  "feature_maximum (example_probe lo hi i v rs) = hi"
  "first_polls (example_probe lo hi i v rs) = [(0, 0), (0, 0), (0, 0)]"
  "probe_rounds (example_probe lo hi i v rs) = rs"
  "final_write_error (example_probe lo hi i v rs) = None"
  "do_not_fragment (example_probe lo hi i v rs) = False"
  "interface_address (example_probe lo hi i v rs) = 3232235777"
  "local_port (example_probe lo hi i v rs) = 50000"
  by (simp_all add: example_probe_def)


lemma lost_test:
  "test_packet_check example_gvsp True n [(0, 0), (0, 0), (0, 0)] =
     Returned (False, [ExecuteFireTestPacket, ExecuteFireTestPacket, ExecuteFireTestPacket])"
  by (simp add: test_packet_check_def test_packet_loop.simps fire_def)









subsection \<open>Bounds that the probe should reject\<close>

lemma bisect_writes_grow:
  assumes "bisect G c inc st rs = Returned st'"
  shows "\<exists>ext. b_writes st' = b_writes st @ ext"
  using assms
proof (induction rs arbitrary: st)
  case Nil
  then show ?case by (auto split: if_splits)
next
  case (Cons r rs)
  show ?case
  proof (cases "bisect_done inc st")
    case True
    with Cons.prems show ?thesis by simp
  next
    case False
    with Cons.prems obtain success fired
      where t: "test_packet_check G c (to_guint (readback r)) (polls r) = Returned (success, fired)"
      by (auto split: outcome.splits)
    let ?t = "tried st r fired"
    let ?new = "[SetPacketSize (int (b_current_size st))] @ fired"
    have g: "b_writes ?t = b_writes st @ ?new"
      by (simp add: tried_def)
    consider (stop) "success" "b_current_size ?t = b_max_size ?t"
      | (up) "success" "b_current_size ?t \<noteq> b_max_size ?t"
      | (down) "\<not> success" by blast
    then show ?thesis
    proof cases
      case stop
      with Cons.prems False t have "st' = accepted ?t" by simp
      with g show ?thesis by (simp add: accepted_def)
    next
      case up
      with Cons.prems False t
      have "bisect G c inc (raise_floor inc (accepted ?t)) rs = Returned st'" by simp
      from Cons.IH [OF this] obtain ext
        where "b_writes st' = b_writes (raise_floor inc (accepted ?t)) @ ext" ..
      with g have "b_writes st' = b_writes st @ (?new @ ext)"
        by (simp add: raise_floor_def accepted_def)
      then show ?thesis ..
    next
      case down
      with Cons.prems False t
      have "bisect G c inc (lower_ceiling inc ?t) rs = Returned st'" by simp
      from Cons.IH [OF this] obtain ext
        where "b_writes st' = b_writes (lower_ceiling inc ?t) @ ext" ..
      with g have "b_writes st' = b_writes st @ (?new @ ext)"
        by (simp add: lower_ceiling_def)
      then show ?thesis ..
    qed
  qed
qed

text \<open>
  C7 does not hold of the code. The feature bounds are \<^verbatim>\<open>gint64\<close> values and the working
  bounds are \<^verbatim>\<open>guint\<close> variables: \<^verbatim>\<open>MIN (ARV_GVSP_MAXIMUM_PACKET_SIZE, maximum)\<close> is
  computed on \<^verbatim>\<open>gint64\<close> and then stored in \<^verbatim>\<open>guint max_size\<close>. For a device that
  reports a maximum of -1 the maximum cut to the protocol bound is -1, which is smaller than
  the minimum cut to the protocol bound whenever that is not negative, but \<^verbatim>\<open>max_size\<close>
  holds 4294967295 and the test \<^verbatim>\<open>max_size < min_size || inc > max_size - min_size\<close>
  lets it pass. The probe does not return early: every run that returns has first set the
  destination address and port of the stream and the do-not-fragment flag, and gone on to
  the test packets.
\<close>

theorem negative_maximum_is_probed:
  assumes node: "fire_test_packet E \<noteq> NoFireTestPacket"
      and maxp: "0 \<le> ARV_GVSP_MAXIMUM_PACKET_SIZE G"
      and neg: "feature_maximum E = - 1"
      and lo: "0 \<le> max (ARV_GVSP_MINIMUM_PACKET_SIZE G) (feature_minimum E)"
      and room: "int (probe_inc E) \<le>
                   4294967295 - max (ARV_GVSP_MINIMUM_PACKET_SIZE G) (feature_minimum E)"
  shows "min (ARV_GVSP_MAXIMUM_PACKET_SIZE G) (feature_maximum E)
           < max (ARV_GVSP_MINIMUM_PACKET_SIZE G) (feature_minimum E) \<and>
         probe_max_size G E = 4294967295 \<and>
         int (probe_min_size G E) = max (ARV_GVSP_MINIMUM_PACKET_SIZE G) (feature_minimum E) \<and>
         (\<forall>r. auto_packet_size G E exit_early error = Returned r \<longrightarrow>
            (\<exists>ws. p_writes r = SetGevSCDA (interface_address E) #
                                SetGevSCPHostPort (local_port E) #
                                SetDoNotFragment True # ws))"
proof -
  let ?min = "max (ARV_GVSP_MINIMUM_PACKET_SIZE G) (feature_minimum E)"
  let ?c = "fire_test_packet E = FireCommand"
  let ?prep = "[SetGevSCDA (interface_address E), SetGevSCPHostPort (local_port E),
                 SetDoNotFragment True]"
  have pos: "1 \<le> probe_inc E" by (simp add: probe_inc_def)
  from neg maxp lo have claim: "min (ARV_GVSP_MAXIMUM_PACKET_SIZE G) (feature_maximum E) < ?min"
    by simp
  from neg maxp have mx: "probe_max_size G E = 4294967295"
    by (simp add: probe_max_size_def to_guint_def)
  from pos have ipos: "1 \<le> int (probe_inc E)" by simp
  from room ipos have "?min \<le> 4294967294" by linarith
  then have small: "?min < 2 ^ 32" by simp
  with lo have mn: "int (probe_min_size G E) = ?min"
    by (simp add: probe_min_size_def to_guint_nat)
  have "probe_min_size G E < 2 ^ 32"
    unfolding probe_min_size_def by (rule to_guint_less)
  then have le: "probe_min_size G E \<le> 4294967295" by simp
  have d: "nat ((int (probe_max_size G E) - int (probe_min_size G E)) mod 2 ^ 32)
             = 4294967295 - probe_min_size G E"
    unfolding mx using le by (simp add: of_nat_diff)
  from room mn le have fit: "probe_inc E \<le> 4294967295 - probe_min_size G E" by linarith
  have go: "\<not> (probe_max_size G E < probe_min_size G E \<or>
               nat ((int (probe_max_size G E) - int (probe_min_size G E)) mod 2 ^ 32) < probe_inc E)"
    unfolding d using fit le by (simp add: mx)
  have w: "\<exists>ws. p_writes r = SetGevSCDA (interface_address E) #
                              SetGevSCPHostPort (local_port E) # SetDoNotFragment True # ws"
    if run: "auto_packet_size G E exit_early error = Returned r" for r
  proof -
    from run node go obtain success fired
      where t: "test_packet_check G ?c (to_guint (feature_value E)) (first_polls E)
                  = Returned (success, fired)"
      by (auto simp: auto_packet_size_def Let_def split: outcome.splits)
    show ?thesis
    proof (cases "success \<and> exit_early")
      case True
      with run node go t
      have "p_writes r = ?prep @ fired @ [SetDoNotFragment (do_not_fragment E)]"
        by (auto simp: auto_packet_size_def Let_def)
      then show ?thesis by simp
    next
      case False
      let ?st = "\<lparr>b_min_size = probe_min_size G E, b_max_size = probe_max_size G E,
                  b_current_size = to_guint (feature_value E), b_last_size = 0,
                  b_packet_size = feature_value E, b_local_error = None,
                  b_writes = ?prep @ fired, b_accepted = [], b_readbacks = []\<rparr>"
      from run node go t False obtain st
        where b: "bisect G ?c (probe_inc E) ?st (probe_rounds E) = Returned st"
        by (auto simp: auto_packet_size_def Let_def split: outcome.splits)
      from bisect_writes_grow [OF b] obtain ext where e: "b_writes st = (?prep @ fired) @ ext"
        by auto
      from run node go t False b
      have "\<exists>tl. p_writes r = b_writes st @ tl"
        by (auto simp: auto_packet_size_def Let_def split: option.splits)
      with e show ?thesis by auto
    qed
  qed
  from claim mx mn w show ?thesis by blast
qed

lemma example_negative_bounds:
  "probe_min_size example_gvsp (example_probe 576 (- 1) 8 v rs) = 576"
  "probe_max_size example_gvsp (example_probe 576 (- 1) 8 v rs) = 4294967295"
  "probe_inc (example_probe 576 (- 1) 8 v rs) = 8"
  by (simp_all add: example_probe_simps example_gvsp_simps probe_max_size_def probe_min_size_def
        probe_inc_def to_guint_def)

lemma delivered_test_576:
  "test_packet_check example_gvsp True 576 [(1, 548)] = Returned (True, [ExecuteFireTestPacket])"
  by (simp add: test_packet_check_def example_gvsp_simps to_guint_def test_packet_loop.simps
        fire_def)

lemma example_bisect_negative:
  "bisect example_gvsp True 8
     \<lparr>b_min_size = 576, b_max_size = 4294967295, b_current_size = 580, b_last_size = 0,
      b_packet_size = 580, b_local_error = None, b_writes = w, b_accepted = [],
      b_readbacks = []\<rparr> [delivered_round 576, lost_round 584] =
   Returned
     \<lparr>b_min_size = 576, b_max_size = 584, b_current_size = 576, b_last_size = 584,
      b_packet_size = 576, b_local_error = None,
      b_writes = w @ [SetPacketSize 580, ExecuteFireTestPacket, SetPacketSize 2147483936,
                      ExecuteFireTestPacket, ExecuteFireTestPacket, ExecuteFireTestPacket],
      b_accepted = [576], b_readbacks = [(580, 576), (2147483936, 584)]\<rparr>"
  by (simp add: lost_round_def delivered_round_def lost_test delivered_test_576 bisect_done_def
        tried_def accepted_def raise_floor_def lower_ceiling_def next_size_def to_guint_def
        first_error_def)

lemma example_negative_run:
  "auto_packet_size example_gvsp example_negative_probe False (Some None) =
   Returned
     \<lparr>p_return = 576, p_error = Some None,
      p_writes = [SetGevSCDA 3232235777, SetGevSCPHostPort 50000, SetDoNotFragment True,
                  ExecuteFireTestPacket, ExecuteFireTestPacket, ExecuteFireTestPacket,
                  SetPacketSize 580, ExecuteFireTestPacket,
                  SetPacketSize 2147483936,
                  ExecuteFireTestPacket, ExecuteFireTestPacket, ExecuteFireTestPacket,
                  SetPacketSize 576, SetDoNotFragment False],
      p_accepted = [576], p_readbacks = [(580, 576), (2147483936, 584)]\<rparr>"
  unfolding auto_packet_size_def example_negative_probe_def
  apply (simp only: example_probe_simps example_negative_bounds Let_def)
  apply (simp only: fire_node.simps if_False if_True lost_test)
  apply (simp add: to_guint_def lost_test example_bisect_negative set_error_def
           del: bisect.simps)
  done

text \<open>
  At the example values: the protocol bounds are 46 and 65536, the device reports the
  bounds 576 and -1, the increment 8 and the value 580. No test packet comes back for 580;
  the bisection writes 580, reads 576 back and accepts it, writes 2147483936, reads 584
  back, gets no test packet, and stops. The probe returns 576, not the configured 580.
\<close>

theorem negative_maximum_witness:
  "fire_test_packet example_negative_probe \<noteq> NoFireTestPacket \<and>
   feature_maximum example_negative_probe = - 1 \<and>
   feature_value_now example_negative_probe = (580, None) \<and>
   min (ARV_GVSP_MAXIMUM_PACKET_SIZE example_gvsp) (feature_maximum example_negative_probe)
     < max (ARV_GVSP_MINIMUM_PACKET_SIZE example_gvsp) (feature_minimum example_negative_probe) \<and>
   probe_max_size example_gvsp example_negative_probe = 4294967295 \<and>
   auto_packet_size example_gvsp example_negative_probe False (Some None) =
   Returned
     \<lparr>p_return = 576, p_error = Some None,
      p_writes = [SetGevSCDA 3232235777, SetGevSCPHostPort 50000, SetDoNotFragment True,
                  ExecuteFireTestPacket, ExecuteFireTestPacket, ExecuteFireTestPacket,
                  SetPacketSize 580, ExecuteFireTestPacket,
                  SetPacketSize 2147483936,
                  ExecuteFireTestPacket, ExecuteFireTestPacket, ExecuteFireTestPacket,
                  SetPacketSize 576, SetDoNotFragment False],
      p_accepted = [576], p_readbacks = [(580, 576), (2147483936, 584)]\<rparr>"
proof -
  have h: "fire_test_packet example_negative_probe \<noteq> NoFireTestPacket"
    "0 \<le> ARV_GVSP_MAXIMUM_PACKET_SIZE example_gvsp"
    "feature_maximum example_negative_probe = - 1"
    "0 \<le> max (ARV_GVSP_MINIMUM_PACKET_SIZE example_gvsp) (feature_minimum example_negative_probe)"
    "int (probe_inc example_negative_probe) \<le>
       4294967295 - max (ARV_GVSP_MINIMUM_PACKET_SIZE example_gvsp)
                      (feature_minimum example_negative_probe)"
    by (simp_all add: example_negative_probe_def example_probe_simps example_gvsp_simps
          example_negative_bounds)
  have v: "feature_value_now example_negative_probe = (580, None)"
    by (simp add: example_negative_probe_def example_probe_def)
  note t = negative_maximum_is_probed [OF h, where exit_early = False and error = "Some None"]
  from t have c: "min (ARV_GVSP_MAXIMUM_PACKET_SIZE example_gvsp)
                    (feature_maximum example_negative_probe)
                  < max (ARV_GVSP_MINIMUM_PACKET_SIZE example_gvsp)
                      (feature_minimum example_negative_probe)"
    by (rule conjunct1)
  from t have m: "probe_max_size example_gvsp example_negative_probe = 4294967295"
    by (rule conjunct2 [THEN conjunct1])
  from h(1,3) v c m example_negative_run show ?thesis by simp
qed

end
